theory Spec2Isabelle
  imports Complex_Main "HOL-Library.Sublist"
begin

section \<open>JavaScript numbers\<close>

text \<open>
  The values of script.js are JavaScript numbers. A finite number is modelled by the real it
  denotes (\<open>Fin\<close>), with exact arithmetic: rounding error and overflow of doubles are outside
  the model. The values that are not finite are kept, since the code can produce them:
  \<open>1000 / 0\<close> is \<open>Infinity\<close> and any arithmetic on \<open>undefined\<close> is \<open>NaN\<close>. A zero carries no
  sign: the zeros the code divides by are sums that start from the literal \<open>0\<close>, which are
  never the negative zero.
\<close>

datatype jsnum = Fin real | PInf | NInf | NaN

text \<open>A value read from an array is a number or \<open>undefined\<close> (\<open>None\<close>); both of them may
  be stored again. \<open>ToNumber(undefined)\<close> is \<open>NaN\<close>.\<close>

type_synonym jsval = "real option"

fun toNumber :: "jsval \<Rightarrow> jsnum" where
  "toNumber None = NaN"
| "toNumber (Some r) = Fin r"

text \<open>\<open>xs[i]\<close>: reading past the end of an array gives \<open>undefined\<close>, it does not raise.\<close>

definition js_index :: "'a list \<Rightarrow> nat \<Rightarrow> 'a option" where
  "js_index xs i = (if i < length xs then Some (xs ! i) else None)"

fun js_neg :: "jsnum \<Rightarrow> jsnum" where
  "js_neg (Fin a) = Fin (- a)"
| "js_neg PInf = NInf"
| "js_neg NInf = PInf"
| "js_neg NaN = NaN"

fun js_add :: "jsnum \<Rightarrow> jsnum \<Rightarrow> jsnum" where
  "js_add NaN _ = NaN"
| "js_add _ NaN = NaN"
| "js_add (Fin a) (Fin b) = Fin (a + b)"
| "js_add PInf NInf = NaN"
| "js_add NInf PInf = NaN"
| "js_add PInf _ = PInf"
| "js_add _ PInf = PInf"
| "js_add NInf _ = NInf"
| "js_add _ NInf = NInf"

definition js_sub :: "jsnum \<Rightarrow> jsnum \<Rightarrow> jsnum" where
  "js_sub a b = js_add a (js_neg b)"

text \<open>The sign of a product or quotient with an infinite operand.\<close>

definition signed_inf :: "bool \<Rightarrow> jsnum" where
  "signed_inf negative = (if negative then NInf else PInf)"

fun js_mul :: "jsnum \<Rightarrow> jsnum \<Rightarrow> jsnum" where
  "js_mul NaN _ = NaN"
| "js_mul _ NaN = NaN"
| "js_mul (Fin a) (Fin b) = Fin (a * b)"
| "js_mul (Fin a) PInf = (if a = 0 then NaN else signed_inf (a < 0))"
| "js_mul (Fin a) NInf = (if a = 0 then NaN else signed_inf (0 < a))"
| "js_mul PInf (Fin b) = (if b = 0 then NaN else signed_inf (b < 0))"
| "js_mul NInf (Fin b) = (if b = 0 then NaN else signed_inf (0 < b))"
| "js_mul PInf PInf = PInf"
| "js_mul NInf NInf = PInf"
| "js_mul PInf NInf = NInf"
| "js_mul NInf PInf = NInf"

fun js_div :: "jsnum \<Rightarrow> jsnum \<Rightarrow> jsnum" where
  "js_div NaN _ = NaN"
| "js_div _ NaN = NaN"
| "js_div (Fin a) (Fin b) =
     (if b \<noteq> 0 then Fin (a / b)
      else if a = 0 then NaN else signed_inf (a < 0))"
| "js_div (Fin a) PInf = Fin 0"
| "js_div (Fin a) NInf = Fin 0"
| "js_div PInf (Fin b) = signed_inf (b < 0)"
| "js_div NInf (Fin b) = signed_inf (0 \<le> b)"
| "js_div PInf PInf = NaN"
| "js_div PInf NInf = NaN"
| "js_div NInf PInf = NaN"
| "js_div NInf NInf = NaN"

text \<open>\<open>a > b\<close>: false as soon as one side is \<open>NaN\<close>.\<close>

fun js_gt :: "jsnum \<Rightarrow> jsnum \<Rightarrow> bool" where
  "js_gt NaN _ = False"
| "js_gt _ NaN = False"
| "js_gt (Fin a) (Fin b) = (b < a)"
| "js_gt PInf PInf = False"
| "js_gt PInf _ = True"
| "js_gt _ PInf = False"
| "js_gt NInf _ = False"
| "js_gt _ NInf = True"

fun math_abs :: "jsnum \<Rightarrow> jsnum" where
  "math_abs (Fin a) = Fin \<bar>a\<bar>"
| "math_abs PInf = PInf"
| "math_abs NInf = PInf"
| "math_abs NaN = NaN"

fun math_sqrt :: "jsnum \<Rightarrow> jsnum" where
  "math_sqrt (Fin a) = (if a < 0 then NaN else Fin (sqrt a))"
| "math_sqrt PInf = PInf"
| "math_sqrt NInf = NaN"
| "math_sqrt NaN = NaN"

text \<open>\<open>Math.round\<close> rounds to the nearest integer, a tie towards \<open>+Infinity\<close>.\<close>

fun math_round :: "jsnum \<Rightarrow> jsnum" where
  "math_round (Fin a) = Fin (of_int \<lfloor>a + 1 / 2\<rfloor>)"
| "math_round v = v"

text \<open>\<open>xs.reduce((a, b) => a + b, 0)\<close> on an array of numbers.\<close>

definition reduce_add :: "jsnum list \<Rightarrow> jsnum" where
  "reduce_add xs = foldl js_add (Fin 0) xs"

fun is_finite :: "jsnum \<Rightarrow> bool" where
  "is_finite (Fin a) = True"
| "is_finite v = False"


section \<open>Text written to the page\<close>

text \<open>
  The readouts are write-only text nodes. A readout is a literal, or a template literal
  \<open>`prefix${v}suffix`\<close> around one number, which is kept together with the way the code
  formats it: \<open>`${v}`\<close> (\<open>ToStr\<close>) or \<open>v.toFixed(n)\<close> (\<open>ToFixed n\<close>).
\<close>

datatype fmt = ToStr | ToFixed nat

datatype readout = Lit string | Tmpl string fmt jsnum string

fun digit_char :: "nat \<Rightarrow> char" where
  "digit_char n = ''0123456789'' ! (n mod 10)"

fun digits :: "nat \<Rightarrow> string" where
  "digits n = (if n < 10 then [digit_char n] else digits (n div 10) @ [digit_char n])"

text \<open>\<open>n\<close> as a decimal with exactly \<open>f\<close> fraction digits: the digits of \<open>n\<close>, padded to
  \<open>f + 1\<close> places, with the point before the last \<open>f\<close>.\<close>

definition fixed_digits :: "nat \<Rightarrow> nat \<Rightarrow> string" where
  "fixed_digits f n =
     (let m = digits n;
          m = replicate (f + 1 - length m) (CHR ''0'') @ m;
          k = length m - f
      in if f = 0 then m else take k m @ ''.'' @ drop k m)"

text \<open>
  The characters of a formatted number. \<open>toFixed\<close> takes the integer \<open>n\<close> for which
  \<open>n / 10^f\<close> is nearest to the magnitude, the larger one on a tie, and puts the sign in
  front. From \<open>10^21\<close> on JavaScript writes both formats in exponent notation, and a
  fraction through \<open>`${v}`\<close> is written with its shortest digits: these two renderings
  are not expanded (\<open>None\<close>).
\<close>

fun number_text :: "fmt \<Rightarrow> jsnum \<Rightarrow> string option" where
  "number_text _ NaN = Some ''NaN''"
| "number_text _ PInf = Some ''Infinity''"
| "number_text _ NInf = Some ''-Infinity''"
| "number_text ToStr (Fin a) =
     (if \<bar>a\<bar> < 10 ^ 21 \<and> a = of_int \<lfloor>a\<rfloor>
      then Some ((if a < 0 then ''-'' else []) @ digits (nat \<lfloor>\<bar>a\<bar>\<rfloor>))
      else None)"
| "number_text (ToFixed f) (Fin a) =
     (if \<bar>a\<bar> < 10 ^ 21
      then Some ((if a < 0 then ''-'' else []) @ fixed_digits f (nat \<lfloor>\<bar>a\<bar> * 10 ^ f + 1 / 2\<rfloor>))
      else None)"

fun render :: "readout \<Rightarrow> string option" where
  "render (Lit s) = Some s"
| "render (Tmpl p f v s) = map_option (\<lambda>m. p @ m @ s) (number_text f v)"


section \<open>The session state of script.js\<close>

text \<open>A snapshot of one controller, as \<open>navigator.getGamepads()\<close> hands it out. Its \<open>id\<close>,
  its \<open>mapping\<close> and the \<open>value\<close> of a button are the fields \<open>ident\<close>, \<open>mapping_name\<close> and
  \<open>button_value\<close>.\<close>

record button =
  pressed :: bool
  button_value :: real

record gamepad =
  index :: nat
  ident :: string
  mapping_name :: string
  timestamp :: real
  axes :: "real list"
  buttons :: "button list"

text \<open>The keys \<open>'left'\<close> and \<open>'right'\<close> of the tracking objects and of the two selections.\<close>

datatype side = LeftSide | RightSide

record performance =
  lastTimestamp :: real
  frameDeltas :: "jsnum list"
  pollingRates :: "jsnum list"

record scope_data =
  scope_x :: "jsval list"
  scope_y :: "jsval list"

type_synonym point = "jsval \<times> jsval"

text \<open>
  What the script has written to the page. A canvas is repainted whole by its grid function
  (\<open>fillRect(0, 0, width, height)\<close> comes first), so its content is the grid plus what was
  drawn since: for the oscilloscope the two traces of a buffer, if any; for the circularity
  view the dots.
\<close>

record page =
  status_connected :: bool
  app_content_hidden :: bool
  tabs_hidden :: bool
  tabs :: "nat list"
  polling_rate :: readout
  frame_delta :: readout
  timestamp_display :: readout
  button_active :: "nat \<Rightarrow> bool"
  stick_left :: "jsnum \<times> jsnum"
  stick_right :: "jsnum \<times> jsnum"
  trigger_left_fill :: real
  trigger_left_value :: readout
  trigger_right_fill :: real
  trigger_right_value :: readout
  controller_name :: string
  controller_mapping :: string
  pressure_bar_left :: real
  pressure_label_left :: readout
  pressure_bar_right :: real
  pressure_label_right :: readout
  resolution_left :: readout
  resolution_right :: readout
  oscilloscope_canvas :: "scope_data option"
  circularity_canvas :: "point list"
  circularity_error :: readout

text \<open>
  The global \<open>GamepadTester\<close>. \<open>gamepads\<close> is an object with integer keys, which
  \<open>Object.keys\<close> lists in ascending order: an association list kept in that order. A
  \<open>Set\<close> of numbers is the list of its members in insertion order.
\<close>

record tester =
  gamepads :: "(nat \<times> gamepad) list"
  activeGamepadIndex :: "nat option"
  performance :: performance
  triggerTracking :: "side \<Rightarrow> real list"
  oscilloscopeData :: "side \<Rightarrow> scope_data"
  circularityData :: "side \<Rightarrow> point list"
  selectedScope :: side
  selectedCircle :: side
  document :: page

definition scope_maxPoints :: nat where
  "scope_maxPoints = 200"

definition circle_maxPoints :: nat where
  "circle_maxPoints = 1000"

definition empty_scope :: scope_data where
  "empty_scope = \<lparr>scope_x = [], scope_y = []\<rparr>"

text \<open>The state when the script is loaded and \<open>setupCanvases\<close> has drawn the two grids;
  the text of the page's markup is the argument.\<close>

definition GamepadTester :: "page \<Rightarrow> tester" where
  "GamepadTester markup =
     \<lparr>gamepads = [],
      activeGamepadIndex = None,
      performance = \<lparr>lastTimestamp = 0, frameDeltas = [], pollingRates = []\<rparr>,
      triggerTracking = (\<lambda>_. []),
      oscilloscopeData = (\<lambda>_. empty_scope),
      circularityData = (\<lambda>_. []),
      selectedScope = LeftSide,
      selectedCircle = LeftSide,
      document = markup\<lparr>oscilloscope_canvas := None, circularity_canvas := []\<rparr>\<rparr>"

subsection \<open>Objects, sets and bounded arrays\<close>

fun obj_set :: "nat \<Rightarrow> 'a \<Rightarrow> (nat \<times> 'a) list \<Rightarrow> (nat \<times> 'a) list" where
  "obj_set k v [] = [(k, v)]"
| "obj_set k v ((k', v') # r) =
     (if k = k' then (k, v) # r
      else if k < k' then (k, v) # (k', v') # r
      else (k', v') # obj_set k v r)"

definition obj_delete :: "nat \<Rightarrow> (nat \<times> 'a) list \<Rightarrow> (nat \<times> 'a) list" where
  "obj_delete k kvs = filter (\<lambda>kv. fst kv \<noteq> k) kvs"

definition obj_keys :: "(nat \<times> 'a) list \<Rightarrow> nat list" where
  "obj_keys kvs = map fst kvs"

text \<open>\<open>s.add(v)\<close>.\<close>

definition set_add :: "real \<Rightarrow> real list \<Rightarrow> real list" where
  "set_add v s = (if v \<in> set s then s else s @ [v])"

text \<open>\<open>xs.push(v); if (xs.length > max) xs.shift();\<close>\<close>

definition push_limit :: "nat \<Rightarrow> 'a \<Rightarrow> 'a list \<Rightarrow> 'a list" where
  "push_limit m v xs = (let ys = xs @ [v] in if length ys > m then tl ys else ys)"


section \<open>The functions of script.js\<close>

text \<open>
  Each function takes the session state and returns it updated. Toasts, the vibration
  controls and the raw data table only write to elements that nothing reads back, and are
  left out.
\<close>

subsection \<open>Connection handlers\<close>

definition updateConnectionStatus :: "bool \<Rightarrow> tester \<Rightarrow> tester" where
  "updateConnectionStatus isConnected st =
     st\<lparr>document := (document st)\<lparr>status_connected := isConnected\<rparr>\<rparr>"

definition showAppContent :: "tester \<Rightarrow> tester" where
  "showAppContent st = st\<lparr>document := (document st)\<lparr>app_content_hidden := False\<rparr>\<rparr>"

definition hideAppContent :: "tester \<Rightarrow> tester" where
  "hideAppContent st = st\<lparr>document := (document st)\<lparr>app_content_hidden := True\<rparr>\<rparr>"

text \<open>With fewer than two controllers the tab bar is hidden and keeps its old tabs;
  otherwise it is rebuilt with one tab per stored controller.\<close>

definition createControllerTabs :: "tester \<Rightarrow> tester" where
  "createControllerTabs st =
     (let gamepadIndices = obj_keys (gamepads st) in
      if length gamepadIndices = 0 then st\<lparr>document := (document st)\<lparr>tabs_hidden := True\<rparr>\<rparr>
      else if length gamepadIndices = 1 then st\<lparr>document := (document st)\<lparr>tabs_hidden := True\<rparr>\<rparr>
      else st\<lparr>document := (document st)\<lparr>tabs_hidden := False, tabs := gamepadIndices\<rparr>\<rparr>)"

text \<open>The click handler that \<open>createControllerTabs\<close> attaches to the tab of \<open>index\<close>.\<close>

definition tab_click :: "nat \<Rightarrow> tester \<Rightarrow> tester" where
  "tab_click i st =
     (let st = st\<lparr>activeGamepadIndex := Some i\<rparr>;
          st = createControllerTabs st
      in st\<lparr>triggerTracking := (\<lambda>_. [])\<rparr>)"

definition handleGamepadConnected :: "gamepad \<Rightarrow> tester \<Rightarrow> tester" where
  "handleGamepadConnected gp st =
     (let st = st\<lparr>gamepads := obj_set (index gp) gp (gamepads st)\<rparr>;
          st = (if activeGamepadIndex st = None
                then st\<lparr>activeGamepadIndex := Some (index gp)\<rparr> else st);
          st = updateConnectionStatus True st;
          st = showAppContent st
      in createControllerTabs st)"

definition handleGamepadDisconnected :: "gamepad \<Rightarrow> tester \<Rightarrow> tester" where
  "handleGamepadDisconnected gp st =
     (let st = st\<lparr>gamepads := obj_delete (index gp) (gamepads st)\<rparr>;
          st = (if activeGamepadIndex st = Some (index gp)
                then (let remainingGamepads = obj_keys (gamepads st) in
                      if length remainingGamepads > 0
                      then st\<lparr>activeGamepadIndex := Some (hd remainingGamepads)\<rparr>
                      else updateConnectionStatus False
                             (hideAppContent (st\<lparr>activeGamepadIndex := None\<rparr>)))
                else st)
      in createControllerTabs st)"

subsection \<open>Performance metrics\<close>

definition updatePerformanceMetrics :: "real \<Rightarrow> real \<Rightarrow> tester \<Rightarrow> tester" where
  "updatePerformanceMetrics currentTime gamepadTimestamp st =
     (let lastTime = lastTimestamp (performance st);
          st = (if lastTime > 0 then
                  (let frameDelta = js_sub (Fin currentTime) (Fin lastTime);
                       deltas = push_limit 60 frameDelta (frameDeltas (performance st));
                       avgFrameDelta = js_div (reduce_add deltas) (Fin (real (length deltas)));
                       pollingRate = js_div (Fin 1000) avgFrameDelta;
                       rates = push_limit 60 pollingRate (pollingRates (performance st));
                       avgPollingRate = js_div (reduce_add rates) (Fin (real (length rates)))
                   in st\<lparr>performance :=
                           (performance st)\<lparr>frameDeltas := deltas, pollingRates := rates\<rparr>,
                         document := (document st)
                           \<lparr>polling_rate := Tmpl [] ToStr (math_round avgPollingRate) '' Hz'',
                            frame_delta := Tmpl [] (ToFixed 2) avgFrameDelta '' ms''\<rparr>\<rparr>)
                else st)
      in st\<lparr>performance := (performance st)\<lparr>lastTimestamp := currentTime\<rparr>,
            document := (document st)\<lparr>timestamp_display := Tmpl [] (ToFixed 2) (Fin gamepadTimestamp) []\<rparr>\<rparr>)"

subsection \<open>Visual controller\<close>

definition DEADZONE :: real where
  "DEADZONE = 5 / 100"

text \<open>\<open>Math.abs(v) > DEADZONE ? v : 0\<close>\<close>

definition deadzone :: "jsval \<Rightarrow> jsval" where
  "deadzone v = (if js_gt (math_abs (toNumber v)) (Fin DEADZONE) then v else Some 0)"

definition stickRange :: real where
  "stickRange = 15"

text \<open>\<open>gamepad.buttons[i] ? gamepad.buttons[i].value : 0\<close>\<close>

definition trigger_value :: "gamepad \<Rightarrow> nat \<Rightarrow> real" where
  "trigger_value gp i = (case js_index (buttons gp) i of Some b \<Rightarrow> button_value b | None \<Rightarrow> 0)"

text \<open>The loop over \<open>gamepad.buttons\<close> visits the buttons that the snapshot has; the class of
  a button element beyond them is left as it was. An index without an element on the page
  has no class that could be read.\<close>

definition updateVisualController :: "gamepad \<Rightarrow> tester \<Rightarrow> tester" where
  "updateVisualController gp st =
     (let active = (\<lambda>i. if i < length (buttons gp)
                         then pressed (buttons gp ! i) \<or> button_value (buttons gp ! i) > 1 / 2
                         else button_active (document st) i);
          leftX = deadzone (js_index (axes gp) 0);
          leftY = deadzone (js_index (axes gp) 1);
          rightX = deadzone (js_index (axes gp) 2);
          rightY = deadzone (js_index (axes gp) 3);
          leftTrigger = trigger_value gp 6;
          rightTrigger = trigger_value gp 7
      in st\<lparr>document := (document st)
           \<lparr>button_active := active,
            stick_left := (js_mul (toNumber leftX) (Fin stickRange),
                           js_mul (toNumber leftY) (Fin stickRange)),
            stick_right := (js_mul (toNumber rightX) (Fin stickRange),
                            js_mul (toNumber rightY) (Fin stickRange)),
            trigger_left_fill := leftTrigger * 100,
            trigger_left_value := Tmpl [] (ToFixed 2) (Fin leftTrigger) [],
            trigger_right_fill := rightTrigger * 100,
            trigger_right_value := Tmpl [] (ToFixed 2) (Fin rightTrigger) []\<rparr>\<rparr>)"

definition updateControllerInfo :: "gamepad \<Rightarrow> tester \<Rightarrow> tester" where
  "updateControllerInfo gp st =
     st\<lparr>document := (document st)
        \<lparr>controller_name := ident gp,
         controller_mapping := (if mapping_name gp = [] then ''Unknown'' else mapping_name gp)\<rparr>\<rparr>"

subsection \<open>Trigger pressure analyzer\<close>

definition steps_text :: "nat \<Rightarrow> readout" where
  "steps_text n = (if n > 0 then Tmpl ''~'' ToStr (Fin (real n)) '' steps'' else Lit ''- steps'')"

definition updateTriggerPressure :: "gamepad \<Rightarrow> tester \<Rightarrow> tester" where
  "updateTriggerPressure gp st =
     (let leftTrigger = trigger_value gp 6;
          rightTrigger = trigger_value gp 7;
          tracking = triggerTracking st;
          tracking = (if leftTrigger > 0
                      then tracking(LeftSide := set_add leftTrigger (tracking LeftSide))
                      else tracking);
          tracking = (if rightTrigger > 0
                      then tracking(RightSide := set_add rightTrigger (tracking RightSide))
                      else tracking);
          leftSteps = length (tracking LeftSide);
          rightSteps = length (tracking RightSide)
      in st\<lparr>triggerTracking := tracking,
            document := (document st)
              \<lparr>pressure_bar_left := leftTrigger * 100,
               pressure_label_left := Tmpl [] (ToFixed 5) (Fin leftTrigger) [],
               pressure_bar_right := rightTrigger * 100,
               pressure_label_right := Tmpl [] (ToFixed 5) (Fin rightTrigger) [],
               resolution_left := steps_text leftSteps,
               resolution_right := steps_text rightSteps\<rparr>\<rparr>)"


subsection \<open>Oscilloscope\<close>

definition axisOffset :: "side \<Rightarrow> nat" where
  "axisOffset s = (if s = LeftSide then 0 else 2)"

text \<open>\<open>drawOscilloscopeGraph\<close> repaints the grid and returns before drawing the traces
  when the buffer has fewer than two samples.\<close>

definition drawOscilloscopeGrid :: "tester \<Rightarrow> tester" where
  "drawOscilloscopeGrid st = st\<lparr>document := (document st)\<lparr>oscilloscope_canvas := None\<rparr>\<rparr>"

definition drawOscilloscopeGraph :: "scope_data \<Rightarrow> tester \<Rightarrow> tester" where
  "drawOscilloscopeGraph data st =
     (let st = drawOscilloscopeGrid st in
      if length (scope_x data) < 2 then st
      else st\<lparr>document := (document st)\<lparr>oscilloscope_canvas := Some data\<rparr>\<rparr>)"

definition updateOscilloscope :: "gamepad \<Rightarrow> real \<Rightarrow> tester \<Rightarrow> tester" where
  "updateOscilloscope gp t st =
     (let offset = axisOffset (selectedScope st);
          xValue = js_index (axes gp) offset;
          yValue = js_index (axes gp) (offset + 1);
          data = oscilloscopeData st (selectedScope st);
          data = data\<lparr>scope_x := scope_x data @ [xValue], scope_y := scope_y data @ [yValue]\<rparr>;
          data = (if length (scope_x data) > scope_maxPoints
                  then data\<lparr>scope_x := tl (scope_x data), scope_y := tl (scope_y data)\<rparr>
                  else data);
          st = st\<lparr>oscilloscopeData := (oscilloscopeData st)(selectedScope st := data)\<rparr>
      in drawOscilloscopeGraph data st)"

definition clearOscilloscope :: "tester \<Rightarrow> tester" where
  "clearOscilloscope st = drawOscilloscopeGrid (st\<lparr>oscilloscopeData := (\<lambda>_. empty_scope)\<rparr>)"

text \<open>The change handler of the \<open>scope-axis\<close> radio buttons.\<close>

definition scope_axis_change :: "side \<Rightarrow> tester \<Rightarrow> tester" where
  "scope_axis_change s st = st\<lparr>selectedScope := s\<rparr>"

subsection \<open>Circularity test\<close>

definition drawCircularityGrid :: "tester \<Rightarrow> tester" where
  "drawCircularityGrid st = st\<lparr>document := (document st)\<lparr>circularity_canvas := []\<rparr>\<rparr>"

text \<open>The body of the \<open>forEach\<close> that accumulates \<open>totalError\<close>.\<close>

definition add_error :: "jsnum \<Rightarrow> point \<Rightarrow> jsnum" where
  "add_error totalError pt =
     (let px = toNumber (fst pt); py = toNumber (snd pt);
          distance = math_sqrt (js_add (js_mul px px) (js_mul py py))
      in if js_gt distance (Fin (1 / 2))
         then js_add totalError (math_abs (js_sub distance (Fin 1)))
         else totalError)"

definition drawCircularityTest :: "tester \<Rightarrow> tester" where
  "drawCircularityTest st =
     (let st = drawCircularityGrid st;
          data = circularityData st (selectedCircle st)
      in if length data = 0 then st
         else
           (let st = st\<lparr>document := (document st)\<lparr>circularity_canvas := data\<rparr>\<rparr> in
            if length data > 10 then
              (let totalError = foldl add_error (Fin 0) data;
                   avgError = js_mul (js_div totalError (Fin (real (length data)))) (Fin 100)
               in st\<lparr>document := (document st)
                       \<lparr>circularity_error := Tmpl [] (ToFixed 2) avgError ''%''\<rparr>\<rparr>)
            else st))"

definition updateCircularity :: "gamepad \<Rightarrow> tester \<Rightarrow> tester" where
  "updateCircularity gp st =
     (let offset = axisOffset (selectedCircle st);
          xValue = js_index (axes gp) offset;
          yValue = js_index (axes gp) (offset + 1);
          st = (if js_gt (math_abs (toNumber xValue)) (Fin (1 / 10))
                   \<or> js_gt (math_abs (toNumber yValue)) (Fin (1 / 10))
                then st\<lparr>circularityData := (circularityData st)
                          (selectedCircle st :=
                             push_limit circle_maxPoints (xValue, yValue)
                               (circularityData st (selectedCircle st)))\<rparr>
                else st)
      in drawCircularityTest st)"

definition clearCircularity :: "tester \<Rightarrow> tester" where
  "clearCircularity st =
     (let st = st\<lparr>circularityData := (\<lambda>_. [])\<rparr>;
          st = drawCircularityGrid st
      in st\<lparr>document := (document st)\<lparr>circularity_error := Lit ''0.00%''\<rparr>\<rparr>)"

text \<open>The change handler of the \<open>circle-axis\<close> radio buttons.\<close>

definition circle_axis_change :: "side \<Rightarrow> tester \<Rightarrow> tester" where
  "circle_axis_change s st = clearCircularity (st\<lparr>selectedCircle := s\<rparr>)"

subsection \<open>The polling loop\<close>

text \<open>One call of \<open>pollGamepads\<close>: \<open>snapshots\<close> is what \<open>navigator.getGamepads()\<close> returns in
  this frame, an array with \<open>null\<close> in its empty slots.\<close>

definition store_snapshots :: "gamepad option list \<Rightarrow> (nat \<times> gamepad) list \<Rightarrow> (nat \<times> gamepad) list" where
  "store_snapshots snapshots kvs =
     foldl (\<lambda>acc s. case s of None \<Rightarrow> acc | Some gp \<Rightarrow> obj_set (index gp) gp acc) kvs snapshots"

definition process_gamepad :: "real \<Rightarrow> gamepad \<Rightarrow> tester \<Rightarrow> tester" where
  "process_gamepad t gp st =
     (let st = updatePerformanceMetrics t (timestamp gp) st;
          st = updateVisualController gp st;
          st = updateControllerInfo gp st;
          st = updateTriggerPressure gp st;
          st = updateOscilloscope gp t st
      in updateCircularity gp st)"

definition pollGamepads :: "real \<Rightarrow> gamepad option list \<Rightarrow> tester \<Rightarrow> tester" where
  "pollGamepads t snapshots st =
     (let st = st\<lparr>gamepads := store_snapshots snapshots (gamepads st)\<rparr> in
      case activeGamepadIndex st of
        None \<Rightarrow> st
      | Some i \<Rightarrow> (case map_of (gamepads st) i of
                     None \<Rightarrow> st
                   | Some gp \<Rightarrow> process_gamepad t gp st))"

text \<open>The snapshot that a frame processes, if any.\<close>

definition polled :: "gamepad option list \<Rightarrow> tester \<Rightarrow> gamepad option" where
  "polled sn st =
     (case activeGamepadIndex st of
        None \<Rightarrow> None
      | Some i \<Rightarrow> map_of (store_snapshots sn (gamepads st)) i)"

subsection \<open>Sessions\<close>

text \<open>What can happen to a session: the two connection events, a click on a controller tab,
  an animation frame, and the four user controls of the two views.\<close>

datatype event =
    Connected gamepad
  | Disconnected gamepad
  | TabClick nat
  | Frame real "gamepad option list"
  | ScopeAxis side
  | ClearScope
  | CircleAxis side
  | ClearCircle

fun handle :: "tester \<Rightarrow> event \<Rightarrow> tester" where
  "handle st (Connected gp) = handleGamepadConnected gp st"
| "handle st (Disconnected gp) = handleGamepadDisconnected gp st"
| "handle st (TabClick i) = tab_click i st"
| "handle st (Frame t snapshots) = pollGamepads t snapshots st"
| "handle st (ScopeAxis s) = scope_axis_change s st"
| "handle st ClearScope = clearOscilloscope st"
| "handle st (CircleAxis s) = circle_axis_change s st"
| "handle st ClearCircle = clearCircularity st"

definition session :: "page \<Rightarrow> event list \<Rightarrow> tester" where
  "session markup evs = foldl handle (GamepadTester markup) evs"


subsection \<open>The rate estimator on a sequence of frames\<close>

text \<open>\<open>updatePerformanceMetrics\<close> called once per frame, with the host timestamp and the
  timestamp of the snapshot, from the state of a fresh page.\<close>

definition feed :: "page \<Rightarrow> (real \<times> real) list \<Rightarrow> tester" where
  "feed markup frames =
     foldl (\<lambda>st fr. updatePerformanceMetrics (fst fr) (snd fr) st) (GamepadTester markup) frames"


section \<open>The quantities of the specification\<close>

text \<open>The last \<open>n\<close> entries of a sequence: a sliding window that evicts the oldest first.\<close>

definition last_n :: "nat \<Rightarrow> 'a list \<Rightarrow> 'a list" where
  "last_n n xs = drop (length xs - n) xs"

text \<open>The frame deltas of a sequence of host timestamps: each timestamp minus the one
  before it.\<close>

definition frame_deltas :: "real list \<Rightarrow> real list" where
  "frame_deltas ts = map (\<lambda>p. fst p - snd p) (zip (tl ts) ts)"

definition mean :: "real list \<Rightarrow> real" where
  "mean xs = sum_list xs / real (length xs)"

text \<open>\<open>1000 / mean(last 60 deltas)\<close>, for the deltas seen so far.\<close>

definition window_rate :: "real list \<Rightarrow> jsnum" where
  "window_rate ds = js_div (Fin 1000) (Fin (mean (last_n 60 ds)))"

text \<open>The rate sample of every frame that has a delta: the window rate of each non-empty
  prefix of the deltas.\<close>

definition tick_rates :: "real list \<Rightarrow> jsnum list" where
  "tick_rates ds = map window_rate (tl (prefixes ds))"

definition js_mean :: "jsnum list \<Rightarrow> jsnum" where
  "js_mean xs = js_div (reduce_add xs) (Fin (real (length xs)))"

text \<open>The distance of a sample from the centre; a sample with an \<open>undefined\<close> coordinate
  has none (in the code it is \<open>NaN\<close>, which is not greater than 0.5).\<close>

definition sample_distance :: "point \<Rightarrow> real option" where
  "sample_distance pt =
     (case pt of (Some a, Some b) \<Rightarrow> Some (sqrt (a * a + b * b)) | _ \<Rightarrow> None)"

text \<open>The circularity error in percent: the sum of \<open>|distance - 1|\<close> over the samples
  whose distance is greater than 0.5, divided by the number of all samples, times 100.\<close>

definition spec_circularity_error :: "point list \<Rightarrow> real" where
  "spec_circularity_error data =
     sum_list (map (\<lambda>d. \<bar>d - 1\<bar>) (filter (\<lambda>d. d > 1 / 2) (List.map_filter sample_distance data)))
       / real (length data) * 100"

text \<open>A coordinate is beyond the noise threshold of the circularity view.\<close>

definition beyond_noise :: "jsval \<Rightarrow> bool" where
  "beyond_noise v = (case v of None \<Rightarrow> False | Some r \<Rightarrow> \<bar>r\<bar> > 1 / 10)"


subsection \<open>Concrete pages and controllers\<close>

text \<open>A page whose readouts are still empty, and a controller with given axis and button
  values, for running the functions on concrete sessions.\<close>

definition blank_page :: page where
  "blank_page =
     \<lparr>status_connected = False, app_content_hidden = True, tabs_hidden = True, tabs = [],
      polling_rate = Lit [], frame_delta = Lit [], timestamp_display = Lit [],
      button_active = (\<lambda>_. False),
      stick_left = (Fin 0, Fin 0), stick_right = (Fin 0, Fin 0),
      trigger_left_fill = 0, trigger_left_value = Lit [],
      trigger_right_fill = 0, trigger_right_value = Lit [],
      controller_name = [], controller_mapping = [],
      pressure_bar_left = 0, pressure_label_left = Lit [],
      pressure_bar_right = 0, pressure_label_right = Lit [],
      resolution_left = Lit [], resolution_right = Lit [],
      oscilloscope_canvas = None, circularity_canvas = [],
      circularity_error = Lit []\<rparr>"

definition pad :: "nat \<Rightarrow> real list \<Rightarrow> real list \<Rightarrow> gamepad" where
  "pad i axs bs =
     \<lparr>index = i, ident = ''pad'', mapping_name = ''standard'', timestamp = 0, axes = axs,
      buttons = map (\<lambda>v. \<lparr>pressed = (v > 0), button_value = v\<rparr>) bs\<rparr>"

text \<open>Sixty-two frames: sixty intervals of 10 ms, then one of 370 ms.\<close>

definition example_frames :: "(real \<times> real) list" where
  "example_frames = map (\<lambda>k. (10 * real k, 0)) [1..<62] @ [(980, 0)]"


section \<open>Which part of the state each function writes\<close>

lemma page_only_frames [simp]:
  "gamepads (updateConnectionStatus b st) = gamepads st"
  "activeGamepadIndex (updateConnectionStatus b st) = activeGamepadIndex st"
  "gamepads (showAppContent st) = gamepads st"
  "activeGamepadIndex (showAppContent st) = activeGamepadIndex st"
  "gamepads (hideAppContent st) = gamepads st"
  "activeGamepadIndex (hideAppContent st) = activeGamepadIndex st"
  by (simp_all add: updateConnectionStatus_def showAppContent_def hideAppContent_def)

lemma createControllerTabs_frame [simp]:
  "gamepads (createControllerTabs st) = gamepads st"
  "activeGamepadIndex (createControllerTabs st) = activeGamepadIndex st"
  "performance (createControllerTabs st) = performance st"
  "triggerTracking (createControllerTabs st) = triggerTracking st"
  "oscilloscopeData (createControllerTabs st) = oscilloscopeData st"
  "circularityData (createControllerTabs st) = circularityData st"
  "selectedScope (createControllerTabs st) = selectedScope st"
  "selectedCircle (createControllerTabs st) = selectedCircle st"
  by (simp_all add: createControllerTabs_def Let_def)

lemma handleGamepadConnected_frame [simp]:
  "gamepads (handleGamepadConnected gp st) = obj_set (index gp) gp (gamepads st)"
  "activeGamepadIndex (handleGamepadConnected gp st) =
     (if activeGamepadIndex st = None then Some (index gp) else activeGamepadIndex st)"
  "performance (handleGamepadConnected gp st) = performance st"
  "triggerTracking (handleGamepadConnected gp st) = triggerTracking st"
  "oscilloscopeData (handleGamepadConnected gp st) = oscilloscopeData st"
  "circularityData (handleGamepadConnected gp st) = circularityData st"
  "selectedScope (handleGamepadConnected gp st) = selectedScope st"
  "selectedCircle (handleGamepadConnected gp st) = selectedCircle st"
  by (simp_all add: handleGamepadConnected_def updateConnectionStatus_def showAppContent_def Let_def)

lemma handleGamepadDisconnected_frame [simp]:
  "gamepads (handleGamepadDisconnected gp st) = obj_delete (index gp) (gamepads st)"
  "activeGamepadIndex (handleGamepadDisconnected gp st) =
     (if activeGamepadIndex st = Some (index gp)
      then (case obj_keys (obj_delete (index gp) (gamepads st)) of [] \<Rightarrow> None | k # _ \<Rightarrow> Some k)
      else activeGamepadIndex st)"
  "performance (handleGamepadDisconnected gp st) = performance st"
  "triggerTracking (handleGamepadDisconnected gp st) = triggerTracking st"
  "oscilloscopeData (handleGamepadDisconnected gp st) = oscilloscopeData st"
  "circularityData (handleGamepadDisconnected gp st) = circularityData st"
  "selectedScope (handleGamepadDisconnected gp st) = selectedScope st"
  "selectedCircle (handleGamepadDisconnected gp st) = selectedCircle st"
  by (simp_all add: handleGamepadDisconnected_def updateConnectionStatus_def hideAppContent_def
        Let_def split: list.splits)


lemma draw_frames [simp]:
  "gamepads (drawOscilloscopeGraph d st) = gamepads st"
  "activeGamepadIndex (drawOscilloscopeGraph d st) = activeGamepadIndex st"
  "performance (drawOscilloscopeGraph d st) = performance st"
  "triggerTracking (drawOscilloscopeGraph d st) = triggerTracking st"
  "oscilloscopeData (drawOscilloscopeGraph d st) = oscilloscopeData st"
  "circularityData (drawOscilloscopeGraph d st) = circularityData st"
  "selectedScope (drawOscilloscopeGraph d st) = selectedScope st"
  "selectedCircle (drawOscilloscopeGraph d st) = selectedCircle st"
  "gamepads (drawCircularityTest st) = gamepads st"
  "activeGamepadIndex (drawCircularityTest st) = activeGamepadIndex st"
  "performance (drawCircularityTest st) = performance st"
  "triggerTracking (drawCircularityTest st) = triggerTracking st"
  "oscilloscopeData (drawCircularityTest st) = oscilloscopeData st"
  "circularityData (drawCircularityTest st) = circularityData st"
  "selectedScope (drawCircularityTest st) = selectedScope st"
  "selectedCircle (drawCircularityTest st) = selectedCircle st"
  by (simp_all add: drawOscilloscopeGraph_def drawOscilloscopeGrid_def drawCircularityTest_def
        drawCircularityGrid_def Let_def)

lemma updatePerformanceMetrics_frame [simp]:
  "gamepads (updatePerformanceMetrics t ts st) = gamepads st"
  "activeGamepadIndex (updatePerformanceMetrics t ts st) = activeGamepadIndex st"
  "triggerTracking (updatePerformanceMetrics t ts st) = triggerTracking st"
  "oscilloscopeData (updatePerformanceMetrics t ts st) = oscilloscopeData st"
  "circularityData (updatePerformanceMetrics t ts st) = circularityData st"
  "selectedScope (updatePerformanceMetrics t ts st) = selectedScope st"
  "selectedCircle (updatePerformanceMetrics t ts st) = selectedCircle st"
  by (simp_all add: updatePerformanceMetrics_def Let_def)

lemma updateVisualController_frame [simp]:
  "gamepads (updateVisualController gp st) = gamepads st"
  "activeGamepadIndex (updateVisualController gp st) = activeGamepadIndex st"
  "performance (updateVisualController gp st) = performance st"
  "triggerTracking (updateVisualController gp st) = triggerTracking st"
  "oscilloscopeData (updateVisualController gp st) = oscilloscopeData st"
  "circularityData (updateVisualController gp st) = circularityData st"
  "selectedScope (updateVisualController gp st) = selectedScope st"
  "selectedCircle (updateVisualController gp st) = selectedCircle st"
  by (simp_all add: updateVisualController_def Let_def)

lemma updateControllerInfo_frame [simp]:
  "gamepads (updateControllerInfo gp st) = gamepads st"
  "activeGamepadIndex (updateControllerInfo gp st) = activeGamepadIndex st"
  "performance (updateControllerInfo gp st) = performance st"
  "triggerTracking (updateControllerInfo gp st) = triggerTracking st"
  "oscilloscopeData (updateControllerInfo gp st) = oscilloscopeData st"
  "circularityData (updateControllerInfo gp st) = circularityData st"
  "selectedScope (updateControllerInfo gp st) = selectedScope st"
  "selectedCircle (updateControllerInfo gp st) = selectedCircle st"
  by (simp_all add: updateControllerInfo_def)

lemma updateTriggerPressure_frame [simp]:
  "gamepads (updateTriggerPressure gp st) = gamepads st"
  "activeGamepadIndex (updateTriggerPressure gp st) = activeGamepadIndex st"
  "performance (updateTriggerPressure gp st) = performance st"
  "oscilloscopeData (updateTriggerPressure gp st) = oscilloscopeData st"
  "circularityData (updateTriggerPressure gp st) = circularityData st"
  "selectedScope (updateTriggerPressure gp st) = selectedScope st"
  "selectedCircle (updateTriggerPressure gp st) = selectedCircle st"
  by (simp_all add: updateTriggerPressure_def Let_def)

lemma updateOscilloscope_frame [simp]:
  "gamepads (updateOscilloscope gp t st) = gamepads st"
  "activeGamepadIndex (updateOscilloscope gp t st) = activeGamepadIndex st"
  "performance (updateOscilloscope gp t st) = performance st"
  "triggerTracking (updateOscilloscope gp t st) = triggerTracking st"
  "circularityData (updateOscilloscope gp t st) = circularityData st"
  "selectedScope (updateOscilloscope gp t st) = selectedScope st"
  "selectedCircle (updateOscilloscope gp t st) = selectedCircle st"
  by (simp_all add: updateOscilloscope_def Let_def)

lemma updateCircularity_frame [simp]:
  "gamepads (updateCircularity gp st) = gamepads st"
  "activeGamepadIndex (updateCircularity gp st) = activeGamepadIndex st"
  "performance (updateCircularity gp st) = performance st"
  "triggerTracking (updateCircularity gp st) = triggerTracking st"
  "oscilloscopeData (updateCircularity gp st) = oscilloscopeData st"
  "selectedScope (updateCircularity gp st) = selectedScope st"
  "selectedCircle (updateCircularity gp st) = selectedCircle st"
  by (simp_all add: updateCircularity_def Let_def)

text \<open>What each analytics function stores depends on its own buffer, the selection and
  the snapshot only.\<close>

lemma performance_cong:
  "performance st = performance st' \<Longrightarrow>
   performance (updatePerformanceMetrics t ts st) = performance (updatePerformanceMetrics t ts st')"
  by (simp add: updatePerformanceMetrics_def Let_def)

lemma triggerTracking_cong:
  "triggerTracking st = triggerTracking st' \<Longrightarrow>
   triggerTracking (updateTriggerPressure gp st) = triggerTracking (updateTriggerPressure gp st')"
  by (simp add: updateTriggerPressure_def Let_def)

lemma oscilloscopeData_cong:
  "oscilloscopeData st = oscilloscopeData st' \<Longrightarrow> selectedScope st = selectedScope st' \<Longrightarrow>
   oscilloscopeData (updateOscilloscope gp t st) = oscilloscopeData (updateOscilloscope gp t st')"
  by (simp add: updateOscilloscope_def Let_def)

lemma circularityData_cong:
  "circularityData st = circularityData st' \<Longrightarrow> selectedCircle st = selectedCircle st' \<Longrightarrow>
   circularityData (updateCircularity gp st) = circularityData (updateCircularity gp st')"
  by (simp add: updateCircularity_def Let_def)


lemma process_gamepad_frame [simp]:
  "gamepads (process_gamepad t gp st) = gamepads st"
  "activeGamepadIndex (process_gamepad t gp st) = activeGamepadIndex st"
  "selectedScope (process_gamepad t gp st) = selectedScope st"
  "selectedCircle (process_gamepad t gp st) = selectedCircle st"
  by (simp_all add: process_gamepad_def Let_def)

lemma process_gamepad_performance [simp]:
  "performance (process_gamepad t gp st) = performance (updatePerformanceMetrics t (timestamp gp) st)"
  by (simp add: process_gamepad_def Let_def)

lemma process_gamepad_triggerTracking [simp]:
  "triggerTracking (process_gamepad t gp st) = triggerTracking (updateTriggerPressure gp st)"
  unfolding process_gamepad_def Let_def
  by (simp, rule triggerTracking_cong, simp)

lemma process_gamepad_oscilloscopeData [simp]:
  "oscilloscopeData (process_gamepad t gp st) = oscilloscopeData (updateOscilloscope gp t st)"
  unfolding process_gamepad_def Let_def
  by (simp, rule oscilloscopeData_cong, simp_all)

lemma process_gamepad_circularityData [simp]:
  "circularityData (process_gamepad t gp st) = circularityData (updateCircularity gp st)"
  unfolding process_gamepad_def Let_def
  by (rule circularityData_cong, simp_all)

lemma gamepads_update_irrelevant [simp]:
  "performance (updatePerformanceMetrics t ts (st\<lparr>gamepads := g\<rparr>)) =
     performance (updatePerformanceMetrics t ts st)"
  "triggerTracking (updateTriggerPressure gp (st\<lparr>gamepads := g\<rparr>)) =
     triggerTracking (updateTriggerPressure gp st)"
  "oscilloscopeData (updateOscilloscope gp t (st\<lparr>gamepads := g\<rparr>)) =
     oscilloscopeData (updateOscilloscope gp t st)"
  "circularityData (updateCircularity gp (st\<lparr>gamepads := g\<rparr>)) =
     circularityData (updateCircularity gp st)"
  by (rule performance_cong triggerTracking_cong oscilloscopeData_cong circularityData_cong; simp)+

lemma pollGamepads_frame [simp]:
  "gamepads (pollGamepads t sn st) = store_snapshots sn (gamepads st)"
  "activeGamepadIndex (pollGamepads t sn st) = activeGamepadIndex st"
  "selectedScope (pollGamepads t sn st) = selectedScope st"
  "selectedCircle (pollGamepads t sn st) = selectedCircle st"
  by (simp_all add: pollGamepads_def Let_def split: option.splits)

lemma pollGamepads_fields:
  "performance (pollGamepads t sn st) =
     (case polled sn st of None \<Rightarrow> performance st
      | Some gp \<Rightarrow> performance (updatePerformanceMetrics t (timestamp gp) st))"
  "triggerTracking (pollGamepads t sn st) =
     (case polled sn st of None \<Rightarrow> triggerTracking st
      | Some gp \<Rightarrow> triggerTracking (updateTriggerPressure gp st))"
  "oscilloscopeData (pollGamepads t sn st) =
     (case polled sn st of None \<Rightarrow> oscilloscopeData st
      | Some gp \<Rightarrow> oscilloscopeData (updateOscilloscope gp t st))"
  "circularityData (pollGamepads t sn st) =
     (case polled sn st of None \<Rightarrow> circularityData st
      | Some gp \<Rightarrow> circularityData (updateCircularity gp st))"
  by (simp_all add: pollGamepads_def polled_def Let_def split: option.splits)

lemma tab_click_frame [simp]:
  "gamepads (tab_click i st) = gamepads st"
  "activeGamepadIndex (tab_click i st) = Some i"
  "performance (tab_click i st) = performance st"
  "triggerTracking (tab_click i st) = (\<lambda>_. [])"
  "oscilloscopeData (tab_click i st) = oscilloscopeData st"
  "circularityData (tab_click i st) = circularityData st"
  "selectedScope (tab_click i st) = selectedScope st"
  "selectedCircle (tab_click i st) = selectedCircle st"
  by (simp_all add: tab_click_def Let_def)

lemma scope_axis_change_frame [simp]:
  "gamepads (scope_axis_change s st) = gamepads st"
  "activeGamepadIndex (scope_axis_change s st) = activeGamepadIndex st"
  "performance (scope_axis_change s st) = performance st"
  "triggerTracking (scope_axis_change s st) = triggerTracking st"
  "oscilloscopeData (scope_axis_change s st) = oscilloscopeData st"
  "circularityData (scope_axis_change s st) = circularityData st"
  "selectedScope (scope_axis_change s st) = s"
  "selectedCircle (scope_axis_change s st) = selectedCircle st"
  by (simp_all add: scope_axis_change_def)

lemma clearOscilloscope_frame [simp]:
  "gamepads (clearOscilloscope st) = gamepads st"
  "activeGamepadIndex (clearOscilloscope st) = activeGamepadIndex st"
  "performance (clearOscilloscope st) = performance st"
  "triggerTracking (clearOscilloscope st) = triggerTracking st"
  "oscilloscopeData (clearOscilloscope st) = (\<lambda>_. empty_scope)"
  "circularityData (clearOscilloscope st) = circularityData st"
  "selectedScope (clearOscilloscope st) = selectedScope st"
  "selectedCircle (clearOscilloscope st) = selectedCircle st"
  by (simp_all add: clearOscilloscope_def drawOscilloscopeGrid_def)

lemma clearCircularity_frame [simp]:
  "gamepads (clearCircularity st) = gamepads st"
  "activeGamepadIndex (clearCircularity st) = activeGamepadIndex st"
  "performance (clearCircularity st) = performance st"
  "triggerTracking (clearCircularity st) = triggerTracking st"
  "oscilloscopeData (clearCircularity st) = oscilloscopeData st"
  "circularityData (clearCircularity st) = (\<lambda>_. [])"
  "selectedScope (clearCircularity st) = selectedScope st"
  "selectedCircle (clearCircularity st) = selectedCircle st"
  by (simp_all add: clearCircularity_def drawCircularityGrid_def Let_def)

lemma circle_axis_change_frame [simp]:
  "gamepads (circle_axis_change s st) = gamepads st"
  "activeGamepadIndex (circle_axis_change s st) = activeGamepadIndex st"
  "performance (circle_axis_change s st) = performance st"
  "triggerTracking (circle_axis_change s st) = triggerTracking st"
  "oscilloscopeData (circle_axis_change s st) = oscilloscopeData st"
  "circularityData (circle_axis_change s st) = (\<lambda>_. [])"
  "selectedScope (circle_axis_change s st) = selectedScope st"
  "selectedCircle (circle_axis_change s st) = s"
  by (simp_all add: circle_axis_change_def)

lemma GamepadTester_fields [simp]:
  "gamepads (GamepadTester m) = []"
  "activeGamepadIndex (GamepadTester m) = None"
  "performance (GamepadTester m) = \<lparr>lastTimestamp = 0, frameDeltas = [], pollingRates = []\<rparr>"
  "triggerTracking (GamepadTester m) = (\<lambda>_. [])"
  "oscilloscopeData (GamepadTester m) = (\<lambda>_. empty_scope)"
  "circularityData (GamepadTester m) = (\<lambda>_. [])"
  "selectedScope (GamepadTester m) = LeftSide"
  "selectedCircle (GamepadTester m) = LeftSide"
  by (simp_all add: GamepadTester_def)

lemma updateTriggerPressure_tracking:
  "triggerTracking (updateTriggerPressure gp st) s =
     (let v = trigger_value gp (case s of LeftSide \<Rightarrow> 6 | RightSide \<Rightarrow> 7) in
      if v > 0 then set_add v (triggerTracking st s) else triggerTracking st s)"
  by (cases s) (simp_all add: updateTriggerPressure_def Let_def)

lemma updateOscilloscope_data:
  "oscilloscopeData (updateOscilloscope gp t st) s =
     (if s = selectedScope st then
        (let d = oscilloscopeData st s;
             xs = scope_x d @ [js_index (axes gp) (axisOffset s)];
             ys = scope_y d @ [js_index (axes gp) (axisOffset s + 1)]
         in if length xs > scope_maxPoints
            then d\<lparr>scope_x := tl xs, scope_y := tl ys\<rparr>
            else d\<lparr>scope_x := xs, scope_y := ys\<rparr>)
      else oscilloscopeData st s)"
  by (simp add: updateOscilloscope_def Let_def)

lemma updateCircularity_data:
  "circularityData (updateCircularity gp st) s =
     (let xValue = js_index (axes gp) (axisOffset s);
          yValue = js_index (axes gp) (axisOffset s + 1)
      in if s = selectedCircle st \<and>
            (js_gt (math_abs (toNumber xValue)) (Fin (1 / 10)) \<or>
             js_gt (math_abs (toNumber yValue)) (Fin (1 / 10)))
         then push_limit circle_maxPoints (xValue, yValue) (circularityData st s)
         else circularityData st s)"
  by (auto simp add: updateCircularity_def Let_def)


section \<open>Connection handling\<close>

text \<open>
  C10. A controller that connects while no controller is active becomes the active one; a
  controller that connects while one is active leaves the active selection as it is.
\<close>

theorem handleGamepadConnected_active:
  "(activeGamepadIndex st = None \<longrightarrow>
      activeGamepadIndex (handleGamepadConnected gp st) = Some (index gp)) \<and>
   (activeGamepadIndex st \<noteq> None \<longrightarrow>
      activeGamepadIndex (handleGamepadConnected gp st) = activeGamepadIndex st)"
  by simp

theorem handleGamepadConnected_active_witness:
  "activeGamepadIndex (GamepadTester blank_page) = None \<and>
   activeGamepadIndex (handleGamepadConnected (pad 3 [] []) (GamepadTester blank_page)) = Some 3 \<and>
   activeGamepadIndex (handleGamepadConnected (pad 3 [] []) (GamepadTester blank_page)) \<noteq> None \<and>
   activeGamepadIndex (handleGamepadConnected (pad 5 [] [])
      (handleGamepadConnected (pad 3 [] []) (GamepadTester blank_page))) = Some 3"
  using handleGamepadConnected_active [of "GamepadTester blank_page" "pad 3 [] []"]
    handleGamepadConnected_active
      [of "handleGamepadConnected (pad 3 [] []) (GamepadTester blank_page)" "pad 5 [] []"]
  by (simp add: pad_def)

lemma updateTriggerPressure_grows:
  "length (triggerTracking st s) \<le> length (triggerTracking (updateTriggerPressure gp st) s)"
  by (simp add: updateTriggerPressure_tracking set_add_def Let_def)

text \<open>
  C4. Within frames a trigger set only grows, and a click on a controller tab empties both
  sets. They are not emptied when the active controller changes because the active one is
  unplugged. Controllers 0 and 1 are connected and 0 is active; a frame reads 0.5 on its
  left trigger; controller 0 disconnects. Controller 1 is now active and the left set still
  holds the 0.5 of controller 0.
\<close>

theorem disconnect_switch_keeps_triggerTracking:
  "activeGamepadIndex (session blank_page
      [Connected (pad 0 [0, 0, 0, 0] [0, 0, 0, 0, 0, 0, 0, 0]),
       Connected (pad 1 [0, 0, 0, 0] [0, 0, 0, 0, 0, 0, 0, 0]),
       Frame 16 [Some (pad 0 [0, 0, 0, 0] [0, 0, 0, 0, 0, 0, 1 / 2, 0]),
                 Some (pad 1 [0, 0, 0, 0] [0, 0, 0, 0, 0, 0, 0, 0])],
       Disconnected (pad 0 [0, 0, 0, 0] [0, 0, 0, 0, 0, 0, 1 / 2, 0])]) = Some 1 \<and>
   triggerTracking (session blank_page
      [Connected (pad 0 [0, 0, 0, 0] [0, 0, 0, 0, 0, 0, 0, 0]),
       Connected (pad 1 [0, 0, 0, 0] [0, 0, 0, 0, 0, 0, 0, 0]),
       Frame 16 [Some (pad 0 [0, 0, 0, 0] [0, 0, 0, 0, 0, 0, 1 / 2, 0]),
                 Some (pad 1 [0, 0, 0, 0] [0, 0, 0, 0, 0, 0, 0, 0])],
       Disconnected (pad 0 [0, 0, 0, 0] [0, 0, 0, 0, 0, 0, 1 / 2, 0])]) LeftSide = [1 / 2]"
  by (simp add: session_def pollGamepads_fields polled_def store_snapshots_def pad_def
        obj_delete_def obj_keys_def updateTriggerPressure_tracking trigger_value_def
        js_index_def set_add_def)


section \<open>Snapshots with fewer axes than the standard mapping\<close>

text \<open>
  C5. A missing button reads as 0, but a missing axis is stored as it is read. A controller
  that reports the single axis 0.8 and no button connects and one frame is processed: the
  Y sequence of the oscilloscope holds \<open>undefined\<close>, not 0, and so does the Y coordinate
  of the circularity sample.
\<close>

theorem missing_axis_stored_undefined:
  "scope_y (oscilloscopeData (session blank_page
      [Connected (pad 0 [4 / 5] []), Frame 16 [Some (pad 0 [4 / 5] [])]]) LeftSide) = [None] \<and>
   circularityData (session blank_page
      [Connected (pad 0 [4 / 5] []), Frame 16 [Some (pad 0 [4 / 5] [])]]) LeftSide
     = [(Some (4 / 5), None)]"
  by (simp add: session_def pollGamepads_fields polled_def store_snapshots_def pad_def
        updateOscilloscope_data updateCircularity_data js_index_def axisOffset_def
        empty_scope_def scope_maxPoints_def circle_maxPoints_def push_limit_def)


section \<open>The bounded buffers\<close>

lemma push_limit_length: "length xs \<le> m \<Longrightarrow> length (push_limit m v xs) \<le> m"
  by (auto simp add: push_limit_def Let_def)

lemma push_limit_eq:
  "length xs \<le> m \<Longrightarrow> 0 < m \<Longrightarrow>
   push_limit m v xs = (if length xs < m then xs @ [v] else tl xs @ [v])"
  by (cases xs) (auto simp add: push_limit_def Let_def)

lemma handle_scope_bounded:
  assumes "\<And>s. length (scope_x (oscilloscopeData st s)) = length (scope_y (oscilloscopeData st s))
              \<and> length (scope_x (oscilloscopeData st s)) \<le> scope_maxPoints"
  shows "length (scope_x (oscilloscopeData (handle st ev) s)) =
           length (scope_y (oscilloscopeData (handle st ev) s))
         \<and> length (scope_x (oscilloscopeData (handle st ev) s)) \<le> scope_maxPoints"
proof (cases ev)
  case (Frame t sn)
  show ?thesis
  proof (cases "polled sn st")
    case None
    with Frame assms [of s] show ?thesis by (simp add: pollGamepads_fields)
  next
    case (Some gp)
    with Frame assms [of s] show ?thesis
      by (auto simp add: pollGamepads_fields updateOscilloscope_data Let_def)
  qed
qed (use assms [of s] in \<open>simp_all add: empty_scope_def\<close>)

lemma session_scope_bounded:
  "length (scope_x (oscilloscopeData (session markup evs) s)) =
     length (scope_y (oscilloscopeData (session markup evs) s))
   \<and> length (scope_x (oscilloscopeData (session markup evs) s)) \<le> scope_maxPoints"
  unfolding session_def
proof (induction evs arbitrary: s rule: rev_induct)
  case Nil
  show ?case by (simp add: empty_scope_def)
next
  case (snoc ev evs)
  show ?case
    unfolding foldl_append foldl.simps
    by (rule handle_scope_bounded) (rule snoc.IH)
qed

text \<open>
  C7. In every session the X sequence and the Y sequence of each stick's oscilloscope buffer
  have the same length, at most 200; an append to a full buffer drops the oldest sample of
  both sequences together.
\<close>

theorem oscilloscope_bounded_lockstep:
  "length (scope_x (oscilloscopeData (session markup evs) s)) =
     length (scope_y (oscilloscopeData (session markup evs) s))
   \<and> length (scope_x (oscilloscopeData (session markup evs) s)) \<le> 200
   \<and> (let st = session markup evs;
           old = oscilloscopeData st (selectedScope st);
           new = oscilloscopeData (updateOscilloscope gp t st) (selectedScope st);
           xValue = js_index (axes gp) (axisOffset (selectedScope st));
           yValue = js_index (axes gp) (axisOffset (selectedScope st) + 1)
       in if length (scope_x old) < 200
          then scope_x new = scope_x old @ [xValue] \<and> scope_y new = scope_y old @ [yValue]
          else scope_x new = tl (scope_x old) @ [xValue] \<and> scope_y new = tl (scope_y old) @ [yValue])"
proof -
  let ?st = "session markup evs"
  have inv: "length (scope_x (oscilloscopeData ?st (selectedScope ?st))) =
     length (scope_y (oscilloscopeData ?st (selectedScope ?st)))"
    "length (scope_x (oscilloscopeData ?st (selectedScope ?st))) \<le> 200"
    using session_scope_bounded [of markup evs "selectedScope ?st"]
    by (simp_all add: scope_maxPoints_def)
  have "scope_x (oscilloscopeData ?st (selectedScope ?st)) \<noteq> []
        \<and> scope_y (oscilloscopeData ?st (selectedScope ?st)) \<noteq> []"
    if "\<not> length (scope_x (oscilloscopeData ?st (selectedScope ?st))) < 200"
    using that inv by auto
  then show ?thesis
    using inv session_scope_bounded [of markup evs s]
    by (auto simp add: updateOscilloscope_data Let_def scope_maxPoints_def)
qed

lemma handle_circle_bounded:
  assumes "\<And>s. length (circularityData st s) \<le> circle_maxPoints"
  shows "length (circularityData (handle st ev) s) \<le> circle_maxPoints"
proof (cases ev)
  case (Frame t sn)
  show ?thesis
  proof (cases "polled sn st")
    case None
    with Frame assms [of s] show ?thesis by (simp add: pollGamepads_fields)
  next
    case (Some gp)
    with Frame assms [of s] show ?thesis
      by (auto simp add: pollGamepads_fields updateCircularity_data Let_def push_limit_length)
  qed
qed (use assms [of s] in simp_all)

lemma session_circle_bounded:
  "length (circularityData (session markup evs) s) \<le> circle_maxPoints"
  unfolding session_def
proof (induction evs arbitrary: s rule: rev_induct)
  case Nil
  show ?case by simp
next
  case (snoc ev evs)
  show ?case
    unfolding foldl_append foldl.simps
    by (rule handle_circle_bounded) (rule snoc.IH)
qed

lemma js_gt_abs_threshold:
  "js_gt (math_abs (toNumber v)) (Fin (1 / 10)) = beyond_noise v"
  by (cases v) (simp_all add: beyond_noise_def)

text \<open>
  C6. In every session, a frame appends the sample (x, y) of the selected stick to its
  scatter set exactly when \<open>|x| > 0.1\<close> or \<open>|y| > 0.1\<close>, dropping the oldest sample when
  the set is full, and no scatter set ever holds more than 1000 samples. The sample
  (0.05, 0.03) is rejected and (0.12, 0) is accepted.
\<close>

theorem circularity_accepts_beyond_noise:
  "(let st = session markup evs;
        old = circularityData st (selectedCircle st);
        new = circularityData (updateCircularity gp st) (selectedCircle st);
        xValue = js_index (axes gp) (axisOffset (selectedCircle st));
        yValue = js_index (axes gp) (axisOffset (selectedCircle st) + 1)
    in new = (if beyond_noise xValue \<or> beyond_noise yValue
              then (if length old < 1000 then old @ [(xValue, yValue)]
                    else tl old @ [(xValue, yValue)])
              else old))
   \<and> length (circularityData (session markup evs) s) \<le> 1000"
  using session_circle_bounded [of markup evs s]
    session_circle_bounded [of markup evs "selectedCircle (session markup evs)"]
  by (simp add: updateCircularity_data Let_def js_gt_abs_threshold push_limit_eq
        circle_maxPoints_def)

theorem circularity_accepts_beyond_noise_witness:
  "circularityData (updateCircularity (pad 0 [1 / 20, 3 / 100, 0, 0] []) (session blank_page []))
      LeftSide = []
   \<and> circularityData (updateCircularity (pad 0 [3 / 25, 0, 0, 0] []) (session blank_page []))
      LeftSide = [(Some (3 / 25), Some 0)]"
  using circularity_accepts_beyond_noise [of blank_page "[]" "pad 0 [1 / 20, 3 / 100, 0, 0] []" LeftSide]
    circularity_accepts_beyond_noise [of blank_page "[]" "pad 0 [3 / 25, 0, 0, 0] []" LeftSide]
  by (simp add: session_def pad_def js_index_def axisOffset_def beyond_noise_def Let_def)


section \<open>Clearing the circularity view\<close>

lemma clearCircularity_page [simp]:
  "circularity_canvas (document (clearCircularity st)) = []"
  "circularity_error (document (clearCircularity st)) = Lit ''0.00%''"
  by (simp_all add: clearCircularity_def drawCircularityGrid_def Let_def)

text \<open>
  C9, as the code has it. An explicit clear, and a switch of the selected circularity stick,
  empty the scatter sets of both sticks, leave the bare grid on the canvas and set the
  displayed error to "0.00%".
\<close>

theorem clearCircularity_clears_both:
  "circularityData (clearCircularity st) s = []
   \<and> circularity_canvas (document (clearCircularity st)) = []
   \<and> circularity_error (document (clearCircularity st)) = Lit ''0.00%''
   \<and> selectedCircle (circle_axis_change s' st) = s'
   \<and> circularityData (circle_axis_change s' st) s = []
   \<and> circularity_canvas (document (circle_axis_change s' st)) = []
   \<and> circularity_error (document (circle_axis_change s' st)) = Lit ''0.00%''"
  by (simp add: circle_axis_change_def)

text \<open>
  C9, as stated, fails: the scatter set of the other stick is not left unchanged. The left
  stick is selected and holds the sample (0.5, 0.5); the selection switches to the right
  stick; the left set is emptied as well.
\<close>

theorem circle_switch_clears_other_counterexample:
  "selectedCircle (session blank_page
      [Connected (pad 0 [1 / 2, 1 / 2, 0, 0] []), Frame 16 [Some (pad 0 [1 / 2, 1 / 2, 0, 0] [])],
       CircleAxis RightSide]) = RightSide
   \<and> circularityData (session blank_page
      [Connected (pad 0 [1 / 2, 1 / 2, 0, 0] []), Frame 16 [Some (pad 0 [1 / 2, 1 / 2, 0, 0] [])],
       CircleAxis RightSide]) LeftSide
     \<noteq> circularityData (session blank_page
      [Connected (pad 0 [1 / 2, 1 / 2, 0, 0] []), Frame 16 [Some (pad 0 [1 / 2, 1 / 2, 0, 0] [])]])
      LeftSide"
  by (simp add: session_def pollGamepads_fields polled_def store_snapshots_def pad_def
        updateCircularity_data js_index_def axisOffset_def circle_maxPoints_def push_limit_def)


section \<open>What the analytics components are fed\<close>

lemma sticks_kept [simp]:
  "stick_left (document (updateControllerInfo gp st)) = stick_left (document st)"
  "stick_right (document (updateControllerInfo gp st)) = stick_right (document st)"
  "stick_left (document (updateTriggerPressure gp st)) = stick_left (document st)"
  "stick_right (document (updateTriggerPressure gp st)) = stick_right (document st)"
  "stick_left (document (updateOscilloscope gp t st)) = stick_left (document st)"
  "stick_right (document (updateOscilloscope gp t st)) = stick_right (document st)"
  "stick_left (document (drawCircularityTest st)) = stick_left (document st)"
  "stick_right (document (drawCircularityTest st)) = stick_right (document st)"
  by (simp_all add: updateControllerInfo_def updateTriggerPressure_def updateOscilloscope_def
        drawOscilloscopeGraph_def drawOscilloscopeGrid_def drawCircularityTest_def
        drawCircularityGrid_def Let_def)

lemma sticks_kept_circularity [simp]:
  "stick_left (document (updateCircularity gp st)) = stick_left (document st)"
  "stick_right (document (updateCircularity gp st)) = stick_right (document st)"
  by (simp_all add: updateCircularity_def Let_def)

lemma updateVisualController_sticks [simp]:
  "stick_left (document (updateVisualController gp st)) =
     (js_mul (toNumber (deadzone (js_index (axes gp) 0))) (Fin stickRange),
      js_mul (toNumber (deadzone (js_index (axes gp) 1))) (Fin stickRange))"
  "stick_right (document (updateVisualController gp st)) =
     (js_mul (toNumber (deadzone (js_index (axes gp) 2))) (Fin stickRange),
      js_mul (toNumber (deadzone (js_index (axes gp) 3))) (Fin stickRange))"
  by (simp_all add: updateVisualController_def Let_def)

lemma process_gamepad_sticks:
  "stick_left (document (process_gamepad t gp st)) =
     (js_mul (toNumber (deadzone (js_index (axes gp) 0))) (Fin stickRange),
      js_mul (toNumber (deadzone (js_index (axes gp) 1))) (Fin stickRange))"
  "stick_right (document (process_gamepad t gp st)) =
     (js_mul (toNumber (deadzone (js_index (axes gp) 2))) (Fin stickRange),
      js_mul (toNumber (deadzone (js_index (axes gp) 3))) (Fin stickRange))"
  by (simp_all add: process_gamepad_def Let_def)

lemma updatePerformanceMetrics_lastTimestamp [simp]:
  "lastTimestamp (performance (updatePerformanceMetrics t ts st)) = t"
  by (simp add: updatePerformanceMetrics_def Let_def)

lemma updateOscilloscope_last:
  assumes "length (scope_x (oscilloscopeData st (selectedScope st))) =
           length (scope_y (oscilloscopeData st (selectedScope st)))"
  shows "last (scope_x (oscilloscopeData (updateOscilloscope gp t st) (selectedScope st))) =
     js_index (axes gp) (axisOffset (selectedScope st))"
  and "last (scope_y (oscilloscopeData (updateOscilloscope gp t st) (selectedScope st))) =
     js_index (axes gp) (axisOffset (selectedScope st) + 1)"
  using assms
  by (cases "scope_x (oscilloscopeData st (selectedScope st))";
      cases "scope_y (oscilloscopeData st (selectedScope st))";
      simp add: updateOscilloscope_data Let_def scope_maxPoints_def)+

text \<open>
  C8. In every session, what a frame stores in the rate estimator, the trigger sets, the
  oscilloscope buffer and the circularity buffer is what the analytics functions compute
  from the snapshot itself: the host timestamp, the trigger values and the axis values as
  they are read. The deadzone of 0.05 enters the displacement of the two stick indicators
  and nothing else.
\<close>

theorem analytics_fed_raw:
  "(let st = session markup evs;
        st' = process_gamepad t gp st;
        xScope = js_index (axes gp) (axisOffset (selectedScope st));
        yScope = js_index (axes gp) (axisOffset (selectedScope st) + 1);
        xCircle = js_index (axes gp) (axisOffset (selectedCircle st));
        yCircle = js_index (axes gp) (axisOffset (selectedCircle st) + 1)
    in performance st' = performance (updatePerformanceMetrics t (timestamp gp) st)
       \<and> lastTimestamp (performance st') = t
       \<and> triggerTracking st' = triggerTracking (updateTriggerPressure gp st)
       \<and> (0 < trigger_value gp 6 \<longrightarrow> trigger_value gp 6 \<in> set (triggerTracking st' LeftSide))
       \<and> (0 < trigger_value gp 7 \<longrightarrow> trigger_value gp 7 \<in> set (triggerTracking st' RightSide))
       \<and> oscilloscopeData st' = oscilloscopeData (updateOscilloscope gp t st)
       \<and> last (scope_x (oscilloscopeData st' (selectedScope st))) = xScope
       \<and> last (scope_y (oscilloscopeData st' (selectedScope st))) = yScope
       \<and> circularityData st' = circularityData (updateCircularity gp st)
       \<and> (beyond_noise xCircle \<or> beyond_noise yCircle \<longrightarrow>
            last (circularityData st' (selectedCircle st)) = (xCircle, yCircle))
       \<and> stick_left (document st') =
            (js_mul (toNumber (deadzone (js_index (axes gp) 0))) (Fin stickRange),
             js_mul (toNumber (deadzone (js_index (axes gp) 1))) (Fin stickRange))
       \<and> stick_right (document st') =
            (js_mul (toNumber (deadzone (js_index (axes gp) 2))) (Fin stickRange),
             js_mul (toNumber (deadzone (js_index (axes gp) 3))) (Fin stickRange)))"
proof -
  let ?st = "session markup evs"
  have len: "length (scope_x (oscilloscopeData ?st (selectedScope ?st))) =
           length (scope_y (oscilloscopeData ?st (selectedScope ?st)))"
    using session_scope_bounded [of markup evs "selectedScope ?st"] by simp
  have circ: "length (circularityData ?st (selectedCircle ?st)) \<le> circle_maxPoints"
    by (rule session_circle_bounded)
  have trig: "0 < trigger_value gp 6 \<longrightarrow>
      trigger_value gp 6 \<in> set (triggerTracking (updateTriggerPressure gp ?st) LeftSide)"
    "0 < trigger_value gp 7 \<longrightarrow>
      trigger_value gp 7 \<in> set (triggerTracking (updateTriggerPressure gp ?st) RightSide)"
    by (simp_all add: updateTriggerPressure_tracking set_add_def Let_def)
  have far: "beyond_noise (js_index (axes gp) (axisOffset (selectedCircle ?st)))
      \<or> beyond_noise (js_index (axes gp) (axisOffset (selectedCircle ?st) + 1)) \<longrightarrow>
     last (circularityData (updateCircularity gp ?st) (selectedCircle ?st)) =
       (js_index (axes gp) (axisOffset (selectedCircle ?st)),
        js_index (axes gp) (axisOffset (selectedCircle ?st) + 1))"
    using circ
    by (simp add: updateCircularity_data js_gt_abs_threshold push_limit_eq circle_maxPoints_def
          Let_def)
  show ?thesis
    unfolding Let_def
    using trig far updateOscilloscope_last [OF len, of gp t]
    by (simp add: process_gamepad_sticks)
qed

theorem analytics_fed_raw_witness:
  "0 < trigger_value (pad 0 [1 / 2, 3 / 100, 0, 0] [0, 0, 0, 0, 0, 0, 1 / 4, 1 / 50]) 6
   \<and> 0 < trigger_value (pad 0 [1 / 2, 3 / 100, 0, 0] [0, 0, 0, 0, 0, 0, 1 / 4, 1 / 50]) 7
   \<and> beyond_noise (Some (1 / 2))
   \<and> triggerTracking (process_gamepad 16
         (pad 0 [1 / 2, 3 / 100, 0, 0] [0, 0, 0, 0, 0, 0, 1 / 4, 1 / 50]) (session blank_page []))
         RightSide = [1 / 50]
   \<and> last (scope_y (oscilloscopeData (process_gamepad 16
         (pad 0 [1 / 2, 3 / 100, 0, 0] [0, 0, 0, 0, 0, 0, 1 / 4, 1 / 50]) (session blank_page []))
         LeftSide)) = Some (3 / 100)
   \<and> last (circularityData (process_gamepad 16
         (pad 0 [1 / 2, 3 / 100, 0, 0] [0, 0, 0, 0, 0, 0, 1 / 4, 1 / 50]) (session blank_page []))
         LeftSide) = (Some (1 / 2), Some (3 / 100))
   \<and> stick_left (document (process_gamepad 16
         (pad 0 [1 / 2, 3 / 100, 0, 0] [0, 0, 0, 0, 0, 0, 1 / 4, 1 / 50]) (session blank_page [])))
       = (Fin (15 / 2), Fin 0)"
  using analytics_fed_raw [of blank_page "[]" 16
      "pad 0 [1 / 2, 3 / 100, 0, 0] [0, 0, 0, 0, 0, 0, 1 / 4, 1 / 50]"]
  by (simp add: Let_def session_def pad_def trigger_value_def js_index_def axisOffset_def
        beyond_noise_def deadzone_def DEADZONE_def stickRange_def
        updateTriggerPressure_tracking set_add_def)


section \<open>The circularity error\<close>

lemma sqrt_quarter: "sqrt (1 / 4) = 1 / 2"
  by (rule real_sqrt_unique) (simp_all add: power2_eq_square)

lemma add_error_Fin:
  "add_error (Fin a) pt =
     Fin (a + (case sample_distance pt of
                 None \<Rightarrow> 0
               | Some d \<Rightarrow> if d > 1 / 2 then \<bar>d - 1\<bar> else 0))"
proof (cases pt)
  case (Pair u v)
  show ?thesis
  proof (cases u; cases v)
    fix a' b' assume "u = Some a'" "v = Some b'"
    moreover have "\<not> a' * a' + b' * b' < 0"
      by (simp add: not_less)
    ultimately show ?thesis using Pair
      by (simp add: add_error_def sample_distance_def js_sub_def Let_def)
  qed (use Pair in \<open>simp_all add: add_error_def sample_distance_def Let_def\<close>)
qed

lemma foldl_add_error:
  "foldl add_error (Fin a) data =
     Fin (a + sum_list (map (\<lambda>pt. case sample_distance pt of
                                      None \<Rightarrow> 0
                                    | Some d \<Rightarrow> if d > 1 / 2 then \<bar>d - 1\<bar> else 0) data))"
  by (induction data arbitrary: a) (simp_all add: add_error_Fin add.assoc)

lemma far_sum:
  "sum_list (map (\<lambda>d. \<bar>d - 1\<bar>) (filter (\<lambda>d. d > 1 / 2) (List.map_filter sample_distance data)))
   = sum_list (map (\<lambda>pt. case sample_distance pt of
                            None \<Rightarrow> 0
                          | Some d \<Rightarrow> if d > 1 / 2 then \<bar>d - 1\<bar> else (0::real)) data)"
  by (induction data) (simp_all split: option.splits)

lemma drawCircularityTest_error:
  "circularity_error (document (drawCircularityTest st)) =
     (let data = circularityData st (selectedCircle st) in
      if length data > 10
      then Tmpl [] (ToFixed 2)
             (js_mul (js_div (foldl add_error (Fin 0) data) (Fin (real (length data)))) (Fin 100))
             ''%''
      else circularity_error (document st))"
  by (simp add: drawCircularityTest_def drawCircularityGrid_def Let_def)

lemma render_zero_percent: "render (Tmpl [] (ToFixed 2) (Fin 0) ''%'') = Some ''0.00%''"
  by (simp add: fixed_digits_def Let_def)

lemma far_sum_half:
  assumes "\<forall>pt\<in>set data. sample_distance pt = Some (1 / 2)"
  shows "spec_circularity_error data = 0"
proof -
  have "filter (\<lambda>d. d > 1 / 2) (List.map_filter sample_distance data) = []"
    using assms by (induction data) simp_all
  then show ?thesis by (simp add: spec_circularity_error_def)
qed

lemma sqrt_nine_sixteenths: "sqrt (9 / 16) = 3 / 4"
  by (rule real_sqrt_unique) (simp_all add: power2_eq_square)

lemma spec_circularity_error_replicate:
  assumes "sample_distance pt = Some d" and "0 < n"
  shows "spec_circularity_error (replicate n pt) = (if d > 1 / 2 then \<bar>d - 1\<bar> * 100 else 0)"
  using assms unfolding spec_circularity_error_def far_sum
  by (simp add: map_replicate_const sum_list_replicate)

lemma blank_page_error [simp]:
  "circularity_error (document (GamepadTester blank_page)) = Lit []"
  by (simp add: GamepadTester_def blank_page_def)

text \<open>
  C1. With more than 10 samples retained for the selected stick, the error written to the
  page is the sum of \<open>|distance - 1|\<close> over the samples whose distance is greater than 0.5,
  divided by the number of all retained samples, times 100, formatted with two decimals.
  Samples at distance exactly 0.5 add nothing, so that samples all at that distance show
  "0.00%". With 10 samples or fewer the readout is left as it was.
\<close>

theorem circularity_error_reported:
  "(10 < length (circularityData st (selectedCircle st)) \<longrightarrow>
      circularity_error (document (drawCircularityTest st)) =
        Tmpl [] (ToFixed 2) (Fin (spec_circularity_error (circularityData st (selectedCircle st)))) ''%'')
   \<and> (10 < length (circularityData st (selectedCircle st))
        \<and> (\<forall>pt\<in>set (circularityData st (selectedCircle st)). sample_distance pt = Some (1 / 2)) \<longrightarrow>
      render (circularity_error (document (drawCircularityTest st))) = Some ''0.00%'')
   \<and> (length (circularityData st (selectedCircle st)) \<le> 10 \<longrightarrow>
      circularity_error (document (drawCircularityTest st)) = circularity_error (document st))"
proof -
  let ?data = "circularityData st (selectedCircle st)"
  have total: "foldl add_error (Fin 0) ?data =
      Fin (sum_list (map (\<lambda>d. \<bar>d - 1\<bar>)
             (filter (\<lambda>d. d > 1 / 2) (List.map_filter sample_distance ?data))))"
    unfolding foldl_add_error far_sum by simp
  have main: "circularity_error (document (drawCircularityTest st)) =
        Tmpl [] (ToFixed 2) (Fin (spec_circularity_error ?data)) ''%''"
    if "10 < length ?data"
  proof -
    from that have "real (length ?data) \<noteq> 0" by auto
    then show ?thesis
      using that
      by (simp only: drawCircularityTest_error Let_def total spec_circularity_error_def
            js_div.simps js_mul.simps if_True not_False_eq_True)
  qed
  have "render (circularity_error (document (drawCircularityTest st))) = Some ''0.00%''"
    if "10 < length ?data" "\<forall>pt\<in>set ?data. sample_distance pt = Some (1 / 2)"
    using main [OF that(1)] far_sum_half [OF that(2)] render_zero_percent by simp
  moreover have "circularity_error (document (drawCircularityTest st)) = circularity_error (document st)"
    if "length ?data \<le> 10"
    using that by (simp add: drawCircularityTest_error)
  ultimately show ?thesis using main by blast
qed

theorem circularity_error_reported_witness:
  "10 < length (circularityData
       ((GamepadTester blank_page)\<lparr>circularityData := (\<lambda>_. replicate 20 (Some (1 / 2), Some 0))\<rparr>)
       LeftSide)
   \<and> sample_distance (Some (1 / 2), Some 0) = Some (1 / 2)
   \<and> render (circularity_error (document (drawCircularityTest
       ((GamepadTester blank_page)\<lparr>circularityData := (\<lambda>_. replicate 20 (Some (1 / 2), Some 0))\<rparr>))))
       = Some ''0.00%''
   \<and> circularity_error (document (drawCircularityTest
       ((GamepadTester blank_page)\<lparr>circularityData := (\<lambda>_. replicate 12 (Some 0, Some (3 / 4)))\<rparr>)))
       = Tmpl [] (ToFixed 2) (Fin 25) ''%''
   \<and> length (circularityData (GamepadTester blank_page) LeftSide) \<le> 10
   \<and> circularity_error (document (drawCircularityTest (GamepadTester blank_page))) = Lit []"
proof -
  have d1: "sample_distance (Some (1 / 2), Some 0) = Some (1 / 2)"
    by (simp add: sample_distance_def sqrt_quarter)
  have d2: "sample_distance (Some 0, Some (3 / 4)) = Some (3 / 4)"
    by (simp add: sample_distance_def sqrt_nine_sixteenths)
  show ?thesis
    using circularity_error_reported
        [of "(GamepadTester blank_page)\<lparr>circularityData := (\<lambda>_. replicate 20 (Some (1 / 2), Some 0))\<rparr>"]
      circularity_error_reported
        [of "(GamepadTester blank_page)\<lparr>circularityData := (\<lambda>_. replicate 12 (Some 0, Some (3 / 4)))\<rparr>"]
      circularity_error_reported [of "GamepadTester blank_page"]
    by (simp add: d1 spec_circularity_error_replicate [OF d1] spec_circularity_error_replicate [OF d2]
          fixed_digits_def Let_def)
qed


section \<open>The rate estimator\<close>

lemma updatePerformanceMetrics_windows:
  "frameDeltas (performance (updatePerformanceMetrics t ts st)) =
     (if lastTimestamp (performance st) > 0
      then push_limit 60 (Fin (t - lastTimestamp (performance st))) (frameDeltas (performance st))
      else frameDeltas (performance st))"
  "pollingRates (performance (updatePerformanceMetrics t ts st)) =
     (if lastTimestamp (performance st) > 0
      then push_limit 60
             (js_div (Fin 1000)
                (js_mean (push_limit 60 (Fin (t - lastTimestamp (performance st)))
                            (frameDeltas (performance st)))))
             (pollingRates (performance st))
      else pollingRates (performance st))"
  by (simp_all add: updatePerformanceMetrics_def Let_def js_sub_def js_mean_def)

lemma updatePerformanceMetrics_polling_rate:
  "polling_rate (document (updatePerformanceMetrics t ts st)) =
     (if lastTimestamp (performance st) > 0
      then Tmpl [] ToStr
             (math_round (js_mean (pollingRates (performance (updatePerformanceMetrics t ts st)))))
             '' Hz''
      else polling_rate (document st))"
  by (simp add: updatePerformanceMetrics_def Let_def js_sub_def js_mean_def)

lemma updatePerformanceMetrics_frame_delta:
  "frame_delta (document (updatePerformanceMetrics t ts st)) =
     (if lastTimestamp (performance st) > 0
      then Tmpl [] (ToFixed 2)
             (js_mean (frameDeltas (performance (updatePerformanceMetrics t ts st)))) '' ms''
      else frame_delta (document st))"
  by (simp add: updatePerformanceMetrics_def Let_def js_sub_def js_mean_def)

lemma push_limit_last_n:
  "0 < m \<Longrightarrow> push_limit m v (last_n m xs) = last_n m (xs @ [v])"
proof (cases "length xs < m")
  case True
  then show ?thesis by (simp add: push_limit_def last_n_def Let_def)
next
  case False
  assume "0 < m"
  with False have "drop (length xs - m) xs \<noteq> []" by simp
  then have "tl (drop (length xs - m) xs @ [v]) = tl (drop (length xs - m) xs) @ [v]"
    by simp
  moreover have "tl (drop (length xs - m) xs) = drop (Suc (length xs) - m) xs"
    using False by (simp add: drop_Suc Suc_diff_le tl_drop)
  ultimately show ?thesis
    using False \<open>0 < m\<close> by (simp add: push_limit_def last_n_def Let_def)
qed

lemma push_limit_map: "push_limit m (f v) (map f xs) = map f (push_limit m v xs)"
  by (simp add: push_limit_def Let_def map_tl)

lemma foldl_js_add_Fin: "foldl js_add (Fin a) (map Fin ds) = Fin (a + sum_list ds)"
  by (induction ds arbitrary: a) (simp_all add: add.assoc)

lemma js_mean_Fin: "ds \<noteq> [] \<Longrightarrow> js_mean (map Fin ds) = Fin (mean ds)"
  by (simp add: js_mean_def reduce_add_def foldl_js_add_Fin mean_def)

lemma zip_shifted_snoc:
  "zip (ts @ [t]) (a # ts @ [t]) = zip ts (a # ts) @ [(t, last (a # ts))]"
  by (induction ts arbitrary: a) simp_all

lemma frame_deltas_snoc:
  "ts \<noteq> [] \<Longrightarrow> frame_deltas (ts @ [t]) = frame_deltas ts @ [t - last ts]"
  by (cases ts) (simp_all add: frame_deltas_def zip_shifted_snoc)

lemma tick_rates_snoc: "tick_rates (ds @ [d]) = tick_rates ds @ [window_rate (ds @ [d])]"
  by (simp add: tick_rates_def)

lemma last_n_snoc_not_Nil: "0 < m \<Longrightarrow> last_n m (xs @ [v]) \<noteq> []"
  by (simp add: last_n_def)

lemma feed_snoc:
  "feed markup (frames @ [fr]) = updatePerformanceMetrics (fst fr) (snd fr) (feed markup frames)"
  by (simp add: feed_def)

lemma feed_performance:
  assumes "frames \<noteq> []" and "list_all (\<lambda>fr. 0 < fst fr) frames"
  shows "performance (feed markup frames) =
     \<lparr>lastTimestamp = fst (last frames),
      frameDeltas = map Fin (last_n 60 (frame_deltas (map fst frames))),
      pollingRates = last_n 60 (tick_rates (frame_deltas (map fst frames)))\<rparr>"
  using assms
proof (induction frames rule: rev_induct)
  case Nil
  then show ?case by simp
next
  case (snoc fr frames)
  show ?case
  proof (cases "frames = []")
    case True
    then show ?thesis
      by (simp add: feed_def updatePerformanceMetrics_def Let_def frame_deltas_def
            last_n_def tick_rates_def)
  next
    case False
    let ?st = "feed markup frames"
    let ?ds = "frame_deltas (map fst frames)"
    let ?ds' = "frame_deltas (map fst frames @ [fst fr])"
    from snoc False have IH: "performance ?st =
       \<lparr>lastTimestamp = fst (last frames), frameDeltas = map Fin (last_n 60 ?ds),
        pollingRates = last_n 60 (tick_rates ?ds)\<rparr>"
      by simp
    from snoc.prems False have pos: "0 < fst (last frames)"
      by (simp add: list_all_iff)
    have ds': "?ds' = ?ds @ [fst fr - fst (last frames)]"
      using False by (simp add: frame_deltas_snoc last_map)
    have deltas: "push_limit 60 (Fin (fst fr - fst (last frames))) (map Fin (last_n 60 ?ds)) =
        map Fin (last_n 60 ?ds')"
      unfolding ds' by (simp add: push_limit_map push_limit_last_n)
    have ne: "last_n 60 ?ds' \<noteq> []"
      unfolding ds' by (rule last_n_snoc_not_Nil) simp
    have rate: "js_div (Fin 1000) (js_mean (map Fin (last_n 60 ?ds'))) = window_rate ?ds'"
      using ne by (simp add: js_mean_Fin window_rate_def)
    have rates: "push_limit 60 (window_rate ?ds') (last_n 60 (tick_rates ?ds)) =
        last_n 60 (tick_rates ?ds')"
      unfolding ds' by (simp add: push_limit_last_n tick_rates_snoc)
    have "lastTimestamp (performance (feed markup (frames @ [fr]))) = fst fr"
      by (simp add: feed_snoc)
    moreover have "frameDeltas (performance (feed markup (frames @ [fr]))) = map Fin (last_n 60 ?ds')"
      using pos by (simp add: feed_snoc updatePerformanceMetrics_windows IH deltas)
    moreover have "pollingRates (performance (feed markup (frames @ [fr]))) =
        last_n 60 (tick_rates ?ds')"
      using pos by (simp add: feed_snoc updatePerformanceMetrics_windows IH deltas rate rates)
    ultimately show ?thesis
      by (cases "performance (feed markup (frames @ [fr]))") simp
  qed
qed

lemma feed_polling_rate:
  assumes "2 \<le> length frames" and "list_all (\<lambda>fr. 0 < fst fr) frames"
  shows "polling_rate (document (feed markup frames)) =
     Tmpl [] ToStr (math_round (js_mean (last_n 60 (tick_rates (frame_deltas (map fst frames))))))
       '' Hz''"
proof (cases frames rule: rev_cases)
  case Nil
  with assms show ?thesis by simp
next
  case (snoc fs fr)
  with assms have ne: "fs \<noteq> []" and all: "list_all (\<lambda>fr. 0 < fst fr) fs" by auto
  then have "0 < lastTimestamp (performance (feed markup fs))"
    by (simp add: feed_performance list_all_iff)
  moreover have "frames \<noteq> []" using snoc by simp
  ultimately show ?thesis
    using feed_performance [OF \<open>frames \<noteq> []\<close> assms(2), of markup]
    unfolding snoc feed_snoc updatePerformanceMetrics_polling_rate
    by (simp add: feed_snoc)
qed

lemma feed_bounded:
  "length (frameDeltas (performance (feed markup frames))) \<le> 60
   \<and> length (pollingRates (performance (feed markup frames))) \<le> 60"
  by (induction frames rule: rev_induct)
     (simp_all add: feed_def updatePerformanceMetrics_windows push_limit_length)


subsection \<open>Frames at a constant interval\<close>

lemma frame_deltas_constant:
  "frame_deltas (map (\<lambda>k. d * real k) [1..<Suc (Suc n)]) = replicate n d"
proof (induction n)
  case 0
  show ?case by (simp add: frame_deltas_def)
next
  case (Suc n)
  let ?ts = "map (\<lambda>k. d * real k) [1..<Suc (Suc n)]"
  have ne: "?ts \<noteq> []" by simp
  have lst: "last ?ts = d * real (Suc n)" by (simp add: last_map)
  have "map (\<lambda>k. d * real k) [1..<Suc (Suc (Suc n))] = ?ts @ [d * real (Suc (Suc n))]"
    by simp
  then have "frame_deltas (map (\<lambda>k. d * real k) [1..<Suc (Suc (Suc n))]) =
      frame_deltas (?ts @ [d * real (Suc (Suc n))])"
    by (simp only:)
  also have "\<dots> = frame_deltas ?ts @ [d * real (Suc (Suc n)) - last ?ts]"
    by (rule frame_deltas_snoc [OF ne])
  also have "\<dots> = replicate n d @ [d]"
    by (simp only: Suc.IH lst) (simp add: algebra_simps)
  also have "\<dots> = replicate (Suc n) d"
    by (simp add: replicate_append_same)
  finally show ?case .
qed

lemma last_n_replicate: "last_n m (replicate k v) = replicate (k - (k - m)) v"
  by (simp add: last_n_def)

lemma mean_replicate: "0 < k \<Longrightarrow> mean (replicate k d) = d"
  by (simp add: mean_def sum_list_replicate)

lemma window_rate_constant:
  "0 < k \<Longrightarrow> d \<noteq> 0 \<Longrightarrow> window_rate (replicate k d) = Fin (1000 / d)"
  by (simp add: window_rate_def last_n_replicate mean_replicate)

lemma tick_rates_constant:
  "d \<noteq> 0 \<Longrightarrow> tick_rates (replicate n d) = replicate n (Fin (1000 / d))"
proof (induction n)
  case 0
  show ?case by (simp add: tick_rates_def)
next
  case (Suc n)
  have snoc: "replicate (Suc n) d = replicate n d @ [d]"
    by (simp add: replicate_append_same)
  have "tick_rates (replicate (Suc n) d) =
      tick_rates (replicate n d) @ [window_rate (replicate (Suc n) d)]"
    unfolding snoc by (rule tick_rates_snoc)
  also have "\<dots> = replicate n (Fin (1000 / d)) @ [Fin (1000 / d)]"
    by (simp only: Suc.IH [OF Suc.prems] window_rate_constant [OF zero_less_Suc Suc.prems])
  also have "\<dots> = replicate (Suc n) (Fin (1000 / d))"
    by (simp add: replicate_append_same)
  finally show ?case .
qed

lemma example_frames_positive: "list_all (\<lambda>fr. 0 < fst fr) example_frames"
  by (simp add: example_frames_def list_all_iff)

lemma example_frames_deltas:
  "frame_deltas (map fst example_frames) = replicate 60 10 @ [370]"
proof -
  let ?ts = "map (\<lambda>k. 10 * real k) [1..<Suc (Suc 60)]"
  have ne: "?ts \<noteq> []" by simp
  have lst: "last ?ts = 610" by (simp add: last_map)
  have "map fst example_frames = ?ts @ [980]"
    by (simp add: example_frames_def comp_def)
  then have "frame_deltas (map fst example_frames) = frame_deltas (?ts @ [980])"
    by (simp only:)
  also have "\<dots> = frame_deltas ?ts @ [980 - last ?ts]"
    by (rule frame_deltas_snoc [OF ne])
  also have "\<dots> = replicate 60 10 @ [370]"
    by (simp only: frame_deltas_constant lst) simp
  finally show ?thesis .
qed

lemma example_frames_rates:
  "last_n 60 (tick_rates (replicate 60 10 @ [370])) = map Fin (replicate 59 100 @ [125 / 2])"
proof -
  have w: "window_rate (replicate 60 10 @ [370]) = Fin (125 / 2)"
    by (simp add: window_rate_def last_n_def mean_def sum_list_replicate)
  have "tick_rates (replicate 60 10 @ [370]) = replicate 60 (Fin 100) @ [Fin (125 / 2)]"
    by (simp add: tick_rates_snoc tick_rates_constant w)
  then show ?thesis
    by (simp add: last_n_def)
qed

lemma example_mean_rate:
  "math_round (js_mean (last_n 60 (tick_rates (replicate 60 10 @ [370])))) = Fin 99"
  unfolding example_frames_rates
  by (simp add: js_mean_Fin mean_def sum_list_replicate del: map_append)

lemma example_rates_length: "length (last_n 60 (tick_rates (replicate 60 10 @ [370]))) = 60"
  unfolding example_frames_rates by simp

lemma example_window_rate:
  "math_round (window_rate (replicate 60 10 @ [370])) = Fin 63"
  by (simp add: window_rate_def last_n_def mean_def sum_list_replicate)

text \<open>
  C2, as the code has it. The delta window and the rate window never hold more than 60
  entries. After at least 61 frame deltas the delta window holds the last 60 deltas and the
  rate window the last 60 rate samples, where the sample of a frame is 1000 divided by the
  mean of the delta window at that frame; the rate written to the page is the mean of the
  rate window, rounded to the nearest integer.
\<close>

theorem rate_windows:
  "length (frameDeltas (performance (feed markup frames))) \<le> 60
   \<and> length (pollingRates (performance (feed markup frames))) \<le> 60
   \<and> (list_all (\<lambda>fr. 0 < fst fr) frames \<and> 61 \<le> length (frame_deltas (map fst frames)) \<longrightarrow>
        frameDeltas (performance (feed markup frames)) =
          map Fin (last_n 60 (frame_deltas (map fst frames)))
        \<and> pollingRates (performance (feed markup frames)) =
          last_n 60 (tick_rates (frame_deltas (map fst frames)))
        \<and> polling_rate (document (feed markup frames)) =
          Tmpl [] ToStr
            (math_round (js_mean (last_n 60 (tick_rates (frame_deltas (map fst frames))))))
            '' Hz'')"
proof -
  have "frameDeltas (performance (feed markup frames)) =
          map Fin (last_n 60 (frame_deltas (map fst frames)))
        \<and> pollingRates (performance (feed markup frames)) =
          last_n 60 (tick_rates (frame_deltas (map fst frames)))
        \<and> polling_rate (document (feed markup frames)) =
          Tmpl [] ToStr
            (math_round (js_mean (last_n 60 (tick_rates (frame_deltas (map fst frames))))))
            '' Hz''"
    if pos: "list_all (\<lambda>fr. 0 < fst fr) frames"
      and len: "61 \<le> length (frame_deltas (map fst frames))"
  proof -
    from len have "2 \<le> length frames"
      by (simp add: frame_deltas_def)
    then have "frames \<noteq> []" by auto
    from feed_performance [OF this pos, of markup] feed_polling_rate [OF \<open>2 \<le> length frames\<close> pos]
    show ?thesis by simp
  qed
  then show ?thesis using feed_bounded [of markup frames] by blast
qed

theorem rate_windows_witness:
  "list_all (\<lambda>fr. 0 < fst fr) example_frames
   \<and> 61 \<le> length (frame_deltas (map fst example_frames))
   \<and> length (pollingRates (performance (feed blank_page example_frames))) = 60
   \<and> polling_rate (document (feed blank_page example_frames)) = Tmpl [] ToStr (Fin 99) '' Hz''
   \<and> render (polling_rate (document (feed blank_page example_frames))) = Some ''99 Hz''"
  using rate_windows [of blank_page example_frames] example_frames_positive
  by (simp add: example_frames_deltas example_mean_rate example_rates_length)

text \<open>
  C2, as stated, fails: the reported rate is not 1000 divided by the mean of the last 60
  deltas. After sixty deltas of 10 ms and one of 370 ms the last 60 deltas have the mean
  16 ms, which gives 62.5 and rounds to 63, but the page shows 99: the mean of fifty-nine
  samples of 100 and one of 62.5.
\<close>

theorem mean_of_rates_counterexample:
  "length (frame_deltas (map fst example_frames)) = 61
   \<and> polling_rate (document (feed blank_page example_frames)) = Tmpl [] ToStr (Fin 99) '' Hz''
   \<and> math_round (window_rate (frame_deltas (map fst example_frames))) = Fin 63"
proof -
  have "2 \<le> length example_frames"
    by (simp add: example_frames_def)
  from feed_polling_rate [OF this example_frames_positive, of blank_page]
  show ?thesis
    by (simp add: example_frames_deltas example_mean_rate example_window_rate)
qed

subsection \<open>A frame delta of zero\<close>

lemma push_limit_snoc: "0 < m \<Longrightarrow> \<exists>ys. push_limit m v xs = ys @ [v]"
  by (cases xs) (auto simp add: push_limit_def Let_def)

lemma js_add_PInf_not_finite: "\<not> is_finite (js_add a PInf)"
  by (cases a) simp_all

lemma js_div_not_finite: "\<not> is_finite a \<Longrightarrow> \<not> is_finite (js_div a (Fin b))"
  by (cases a) (simp_all add: signed_inf_def)

lemma math_round_not_finite: "\<not> is_finite a \<Longrightarrow> \<not> is_finite (math_round a)"
  by (cases a) simp_all

lemma js_mean_snoc_PInf: "\<not> is_finite (js_mean (ys @ [PInf]))"
  by (simp add: js_mean_def reduce_add_def js_add_PInf_not_finite js_div_not_finite)

text \<open>
  C3, as the code has it. The division is not guarded. When the average frame delta of a
  frame is 0, the rate sample of the frame is \<open>Infinity\<close>, it enters the rate window, and
  the rounded rate written to the page is not a finite number (\<open>Infinity\<close>, or \<open>NaN\<close> if
  the window also holds \<open>-Infinity\<close> or \<open>NaN\<close>). The frame is processed to its end.
\<close>

theorem zero_delta_rate_not_finite:
  assumes "0 < lastTimestamp (performance st)"
    and "js_mean (frameDeltas (performance (updatePerformanceMetrics t ts st))) = Fin 0"
  shows "last (pollingRates (performance (updatePerformanceMetrics t ts st))) = PInf
    \<and> polling_rate (document (updatePerformanceMetrics t ts st)) =
        Tmpl [] ToStr
          (math_round (js_mean (pollingRates (performance (updatePerformanceMetrics t ts st)))))
          '' Hz''
    \<and> \<not> is_finite
          (math_round (js_mean (pollingRates (performance (updatePerformanceMetrics t ts st)))))"
proof -
  let ?st' = "updatePerformanceMetrics t ts st"
  from assms have avg: "js_mean (push_limit 60 (Fin (t - lastTimestamp (performance st)))
      (frameDeltas (performance st))) = Fin 0"
    by (simp add: updatePerformanceMetrics_windows)
  obtain ys where ys: "push_limit 60 PInf (pollingRates (performance st)) = ys @ [PInf]"
    using push_limit_snoc [of 60 PInf "pollingRates (performance st)"] by auto
  have rates: "pollingRates (performance ?st') = ys @ [PInf]"
    using assms(1) by (simp add: updatePerformanceMetrics_windows avg signed_inf_def ys)
  have "\<not> is_finite (math_round (js_mean (pollingRates (performance ?st'))))"
    unfolding rates by (rule math_round_not_finite) (rule js_mean_snoc_PInf)
  moreover have "polling_rate (document ?st') =
      Tmpl [] ToStr (math_round (js_mean (pollingRates (performance ?st')))) '' Hz''"
    using assms(1) by (simp add: updatePerformanceMetrics_polling_rate)
  ultimately show ?thesis using rates by simp
qed

lemma feed_two_equal:
  "performance (feed blank_page [(100, 0)]) =
     \<lparr>lastTimestamp = 100, frameDeltas = [], pollingRates = []\<rparr>"
  by (simp add: feed_performance frame_deltas_def last_n_def tick_rates_def)

theorem zero_delta_rate_not_finite_witness:
  "0 < lastTimestamp (performance (feed blank_page [(100, 0)]))
   \<and> js_mean (frameDeltas (performance
        (updatePerformanceMetrics 100 0 (feed blank_page [(100, 0)])))) = Fin 0
   \<and> pollingRates (performance
        (updatePerformanceMetrics 100 0 (feed blank_page [(100, 0)]))) = [PInf]
   \<and> polling_rate (document (updatePerformanceMetrics 100 0 (feed blank_page [(100, 0)]))) =
        Tmpl [] ToStr PInf '' Hz''"
  using zero_delta_rate_not_finite [of "feed blank_page [(100, 0)]" 100 0]
  by (simp add: feed_two_equal updatePerformanceMetrics_windows push_limit_def js_mean_def
        reduce_add_def signed_inf_def)

text \<open>
  C3, as stated, fails: two frames with the same host timestamp 100 give the average delta
  0, and the page shows "Infinity Hz".
\<close>

theorem duplicate_timestamp_counterexample:
  "frame_delta (document (feed blank_page [(100, 0), (100, 0)])) =
     Tmpl [] (ToFixed 2) (Fin 0) '' ms''
   \<and> polling_rate (document (feed blank_page [(100, 0), (100, 0)])) = Tmpl [] ToStr PInf '' Hz''
   \<and> render (polling_rate (document (feed blank_page [(100, 0), (100, 0)]))) = Some ''Infinity Hz''"
proof -
  have "feed blank_page [(100, 0), (100, 0)] =
      updatePerformanceMetrics 100 0 (feed blank_page [(100, 0)])"
    using feed_snoc [of blank_page "[(100, 0)]" "(100, 0)"] by simp
  then show ?thesis
    by (simp add: feed_two_equal updatePerformanceMetrics_windows
          updatePerformanceMetrics_polling_rate updatePerformanceMetrics_frame_delta
          push_limit_def js_mean_def reduce_add_def signed_inf_def)
qed

end
